theory Spec2Isabelle
  imports Main "HOL-Library.AList"
begin

section \<open>Chart saving: directory form and archive form\<close>

text \<open>
  A shallow embedding of the chart writer of package \<open>util\<close>: \<open>validateName\<close>,
  \<open>writeToTar\<close>, \<open>writeTarContents\<close>, \<open>Save\<close> and \<open>SaveDir\<close>.
  The functions \<open>Clean\<close>, \<open>Join\<close>, \<open>Base\<close> and \<open>Dir\<close> of \<open>path/filepath\<close> and the
  functions of \<open>os\<close> are embedded as the Unix build has them: the path separator is the
  forward slash, and there are no volume names, symbolic links or permissions.
  \<open>filepath.Separator\<close>, which \<open>ToSlash\<close> reads when an archive entry is written, is a
  parameter of the host.
\<close>

subsection \<open>Package \<open>path/filepath\<close>\<close>

text \<open>\<open>os.PathSeparator\<close> of the Unix build.\<close>

definition PathSeparator :: char where
  "PathSeparator = CHR ''/''"

definition IsPathSeparator :: "char \<Rightarrow> bool" where
  "IsPathSeparator c = (c = PathSeparator)"

text \<open>
  \<open>for len(path) > 0 && os.IsPathSeparator(path[len(path)-1]) { path = path[0 : len(path)-1] }\<close>
\<close>

function stripTrailing :: "string \<Rightarrow> string" where
  "stripTrailing path =
     (if path \<noteq> [] \<and> IsPathSeparator (last path) then stripTrailing (butlast path) else path)"
  by pat_completeness auto
termination
  by (relation "measure length") simp_all

declare stripTrailing.simps [simp del]

text \<open>
  \<open>i := len(path) - 1; for i >= 0 && !os.IsPathSeparator(path[i]) { i-- }\<close>.
  The index \<open>i\<close> runs down to \<open>-1\<close>; the model counts \<open>k = i + 1\<close>, so the
  result is the length of the prefix that ends with the last separator (0 when there is none).
\<close>

fun lastElemStart :: "string \<Rightarrow> nat \<Rightarrow> nat" where
  "lastElemStart path 0 = 0"
| "lastElemStart path (Suc i) =
     (if \<not> IsPathSeparator (path ! i) then lastElemStart path i else Suc i)"

definition Base :: "string \<Rightarrow> string" where
  "Base path =
     (if path = [] then ''.''
      else let p1 = stripTrailing path;
               p2 = drop (lastElemStart p1 (length p1)) p1
           in if p2 = [] then [PathSeparator] else p2)"

text \<open>
  The backtracking of \<open>Clean\<close> at a \<open>..\<close> element:
  \<open>out.w--; for out.w > dotdot && !os.IsPathSeparator(out.index(out.w)) { out.w-- }\<close>.
\<close>

function backtrack :: "string \<Rightarrow> nat \<Rightarrow> nat \<Rightarrow> nat" where
  "backtrack out dotdot w =
     (if w > dotdot \<and> \<not> IsPathSeparator (out ! w) then backtrack out dotdot (w - 1) else w)"
  by pat_completeness auto
termination
  by (relation "measure (\<lambda>(out, dotdot, w). w)") auto

declare backtrack.simps [simp del]

text \<open>
  The main loop of \<open>Clean\<close>. The first argument is \<open>rooted\<close>, the second the part of the
  path not yet read (\<open>path[r:]\<close>), the third the buffer written so far (\<open>out\<close>, with
  \<open>out.w\<close> its length), the fourth \<open>dotdot\<close>.
\<close>

function clean_loop :: "bool \<Rightarrow> string \<Rightarrow> string \<Rightarrow> nat \<Rightarrow> string" where
  "clean_loop rooted [] out dotdot = out"
| "clean_loop rooted (c # rest) out dotdot =
     (if IsPathSeparator c then clean_loop rooted rest out dotdot
      else if c = CHR ''.'' \<and> (rest = [] \<or> IsPathSeparator (hd rest))
        then clean_loop rooted rest out dotdot
      else if c = CHR ''.'' \<and> hd rest = CHR ''.''
                \<and> (tl rest = [] \<or> IsPathSeparator (hd (tl rest)))
        then (if length out > dotdot
                then clean_loop rooted (tl rest)
                       (take (backtrack out dotdot (length out - 1)) out) dotdot
              else if \<not> rooted
                then (let out' = (if out \<noteq> [] then out @ [PathSeparator] else out) @ ''..''
                      in clean_loop rooted (tl rest) out' (length out'))
              else clean_loop rooted (tl rest) out dotdot)
      else (let out' = (if (rooted \<and> length out \<noteq> 1) \<or> (\<not> rooted \<and> length out \<noteq> 0)
                        then out @ [PathSeparator] else out)
            in clean_loop rooted (dropWhile (\<lambda>x. \<not> IsPathSeparator x) rest)
                 (out' @ c # takeWhile (\<lambda>x. \<not> IsPathSeparator x) rest) dotdot))"
  by pat_completeness auto
termination
  by (relation "measure (\<lambda>(rooted, path, out, dotdot). length path)")
     (simp_all (no_asm) add: less_Suc_eq_le length_dropWhile_le)

definition Clean :: "string \<Rightarrow> string" where
  "Clean path =
     (if path = [] then ''.''
      else let rooted = IsPathSeparator (hd path);
               out = (if rooted then clean_loop True (tl path) [PathSeparator] 1
                      else clean_loop False path [] 0)
           in if out = [] then ''.'' else out)"

text \<open>\<open>strings.Join(elems, sep)\<close>\<close>

fun strings_Join :: "string list \<Rightarrow> string \<Rightarrow> string" where
  "strings_Join [] sep = []"
| "strings_Join [e] sep = e"
| "strings_Join (e # es) sep = e @ sep @ strings_Join es sep"

text \<open>
  \<open>for i, e := range elem { if e != "" { return Clean(strings.Join(elem[i:], "/")) } }; return ""\<close>
\<close>

fun Join :: "string list \<Rightarrow> string" where
  "Join [] = []"
| "Join (e # es) = (if e \<noteq> [] then Clean (strings_Join (e # es) [PathSeparator]) else Join es)"

declare Join.simps [simp del]

definition Dir :: "string \<Rightarrow> string" where
  "Dir path = Clean (take (lastElemStart path (length path)) path)"

text \<open>
  \<open>ToSlash\<close> reads the host's \<open>Separator\<close>, here its first argument:
  \<open>if Separator == '/' { return path }; return replaceStringByte(path, Separator, '/')\<close>.
\<close>

definition ToSlash :: "char \<Rightarrow> string \<Rightarrow> string" where
  "ToSlash sep path =
     (if sep = CHR ''/'' then path
      else map (\<lambda>c. if c = sep then CHR ''/'' else c) path)"

subsection \<open>Errors\<close>

datatype errno = ENOENT | ENOTDIR | EISDIR | ENOTEMPTY | EIO

text \<open>
  \<open>ErrInvalidChartName\<close> is the package's own error type, \<open>ErrorString\<close> an error made by
  \<open>errors.New\<close> or by \<open>fmt.Errorf\<close> without \<open>%w\<close>, \<open>Wrapped\<close> one made by
  \<open>fmt.Errorf\<close> with a text before \<open>%w\<close>, \<open>PathError\<close> an \<open>*fs.PathError\<close> of package
  \<open>os\<close>. \<open>CollaboratorError\<close> stands for the errors of the chart validator and of the
  YAML serializer, \<open>NilDereference\<close> for the run-time panic.
\<close>

datatype error =
    ErrInvalidChartName string
  | ErrorString string
  | Wrapped string error
  | PathError string string errno
  | CollaboratorError string
  | NilDereference

subsection \<open>The name validator\<close>

definition validateName :: "string \<Rightarrow> error option" where
  "validateName name =
     (let nname = Base name
      in if nname \<noteq> name then Some (ErrInvalidChartName name) else None)"

subsection \<open>The chart object\<close>

text \<open>
  Package \<open>chart\<close> is a collaborator; the writer reads these fields of it. The type of the
  lock document is left open (\<open>'l\<close>): only the serializer looks inside.
  A \<open>*chart.File\<close> is taken to be non-nil, as the loader builds it.
\<close>

record metadata =
  Metadata_Name :: string
  Version :: string

record chart_file =
  File_Name :: string
  Data :: string

datatype 'l chart =
  Chart (Metadata: "metadata option") (Lock: "'l option") (Raw: "chart_file list")
        (Schema: "string option") (Templates: "chart_file list") (Files: "chart_file list")
        (dependencies: "'l chart list")

text \<open>\<open>func (ch *Chart) Name() string\<close>: the empty string when the metadata is nil.\<close>

definition Name :: "'l chart \<Rightarrow> string" where
  "Name ch = (case Metadata ch of None \<Rightarrow> [] | Some md \<Rightarrow> Metadata_Name md)"

definition Dependencies :: "'l chart \<Rightarrow> 'l chart list" where
  "Dependencies ch = dependencies ch"

text \<open>
  \<open>func (ch *Chart) ChartFullPath() string\<close>. The tree datatype has no parent pointer, so
  the first argument is the parent's full path (\<open>None\<close> for a root chart).
\<close>

definition ChartFullPath :: "string option \<Rightarrow> 'l chart \<Rightarrow> string" where
  "ChartFullPath parent ch =
     (case parent of Some pp \<Rightarrow> pp @ ''/charts/'' @ Name ch | None \<Rightarrow> Name ch)"

text \<open>
  Modelled from the spec: the filename constants of the package, declared outside the
  files at hand: the metadata, values and schema filenames and the directory of dependencies.
\<close>

definition ChartfileName :: string where
  "ChartfileName = ''Chart.yaml''"

definition ValuesfileName :: string where
  "ValuesfileName = ''values.yaml''"

definition SchemafileName :: string where
  "SchemafileName = ''values.schema.json''"

definition ChartsDir :: string where
  "ChartsDir = ''charts''"

definition headerBytes :: string where
  "headerBytes = ''+aHR0cHM6Ly95b3V0dS5iZS96OVV6MWljandyTQo=''"

subsection \<open>Collaborators and host\<close>

text \<open>
  What the writer calls but does not define: the chart validator (\<open>c.Validate()\<close>),
  \<open>yaml.Marshal\<close> on the metadata pointer and on the lock, \<open>json.Valid\<close>, the clock behind
  \<open>time.Now()\<close>, the failures of the archive stream, and the host's
  \<open>filepath.Separator\<close>. The validator and the serializer answer with the text of their
  error. The clock and the stream failures are functions of the number of operations the
  archive stream has seen.
\<close>

record 'l env =
  Separator :: char
  Validate :: "'l chart \<Rightarrow> string option"
  yaml_Marshal_Metadata :: "metadata option \<Rightarrow> string + string"
  yaml_Marshal_Lock :: "'l \<Rightarrow> string + string"
  json_Valid :: "string \<Rightarrow> bool"
  Now :: "nat \<Rightarrow> int"
  stream_fault :: "nat \<Rightarrow> errno option"

subsection \<open>Package \<open>archive/tar\<close>\<close>

text \<open>\<open>tar.Header\<close>, with the fields the writer sets. The mode \<open>0644\<close> is 420.\<close>

record header =
  Header_Name :: string
  Mode :: int
  Size :: int
  ModTime :: int

text \<open>
  The writer holds the entries written so far (header and payload), the number of payload
  bytes the current entry still expects, and the number of operations it has seen.
\<close>

record tar_writer =
  tw_entries :: "(header \<times> string) list"
  tw_remaining :: nat
  tw_ops :: nat

definition tar_NewWriter :: tar_writer where
  "tar_NewWriter = \<lparr>tw_entries = [], tw_remaining = 0, tw_ops = 0\<rparr>"

definition ErrWriteTooLong :: error where
  "ErrWriteTooLong = ErrorString ''archive/tar: write too long''"

text \<open>
  \<open>WriteHeader\<close> refuses to start an entry while the previous one misses bytes, and fails
  when the stream does.
\<close>

definition WriteHeader :: "'l env \<Rightarrow> tar_writer \<Rightarrow> header \<Rightarrow> error option \<times> tar_writer" where
  "WriteHeader env tw h =
     (if tw_remaining tw > 0
        then (Some (ErrorString ''archive/tar: missed writing bytes''), tw)
      else case stream_fault env (tw_ops tw) of
             Some e \<Rightarrow> (Some (PathError ''write'' (Header_Name h) e), tw\<lparr>tw_ops := Suc (tw_ops tw)\<rparr>)
           | None \<Rightarrow>
               (None, tw\<lparr>tw_entries := tw_entries tw @ [(h, [])],
                         tw_remaining := nat (Size h),
                         tw_ops := Suc (tw_ops tw)\<rparr>))"

definition append_payload :: "(header \<times> string) list \<Rightarrow> string \<Rightarrow> (header \<times> string) list" where
  "append_payload es b =
     (if es = [] then [] else butlast es @ [(fst (last es), snd (last es) @ b)])"

text \<open>
  \<open>Write\<close> writes at most what the header announced and answers \<open>ErrWriteTooLong\<close> for
  the rest.
\<close>

definition Write :: "'l env \<Rightarrow> tar_writer \<Rightarrow> string \<Rightarrow> error option \<times> tar_writer" where
  "Write env tw b =
     (case stream_fault env (tw_ops tw) of
        Some e \<Rightarrow> (Some (PathError ''write'' [] e), tw\<lparr>tw_ops := Suc (tw_ops tw)\<rparr>)
      | None \<Rightarrow>
          if length b > tw_remaining tw
            then (Some ErrWriteTooLong,
                  tw\<lparr>tw_entries := append_payload (tw_entries tw) (take (tw_remaining tw) b),
                     tw_remaining := 0, tw_ops := Suc (tw_ops tw)\<rparr>)
          else (None,
                tw\<lparr>tw_entries := append_payload (tw_entries tw) b,
                   tw_remaining := tw_remaining tw - length b,
                   tw_ops := Suc (tw_ops tw)\<rparr>))"

subsection \<open>The archive entry writer\<close>

definition writeToTar :: "'l env \<Rightarrow> tar_writer \<Rightarrow> string \<Rightarrow> string \<Rightarrow> error option \<times> tar_writer" where
  "writeToTar env out name body =
     (let h = \<lparr>Header_Name = ToSlash (Separator env) name, Mode = 420, Size = int (length body),
               ModTime = Now env (tw_ops out)\<rparr>
      in case WriteHeader env out h of
           (Some err, out') \<Rightarrow> (Some err, out')
         | (None, out') \<Rightarrow> Write env out' body)"

subsection \<open>The archive builder\<close>

text \<open>The block \<open>// Save Chart.lock\<close>.\<close>

definition writeLock :: "'l env \<Rightarrow> tar_writer \<Rightarrow> string \<Rightarrow> 'l option \<Rightarrow> error option \<times> tar_writer" where
  "writeLock env out base lk =
     (case lk of
        None \<Rightarrow> (None, out)
      | Some l \<Rightarrow>
          (case yaml_Marshal_Lock env l of
             Inl msg \<Rightarrow> (Some (CollaboratorError msg), out)
           | Inr ldata \<Rightarrow> writeToTar env out (Join [base, ''Chart.lock'']) ldata))"

text \<open>The loop \<open>// Save values.yaml\<close> over \<open>c.Raw\<close>.\<close>

fun writeValues :: "'l env \<Rightarrow> tar_writer \<Rightarrow> string \<Rightarrow> chart_file list \<Rightarrow> error option \<times> tar_writer" where
  "writeValues env out base [] = (None, out)"
| "writeValues env out base (f # fs) =
     (if File_Name f = ValuesfileName
        then (case writeToTar env out (Join [base, ValuesfileName]) (Data f) of
                (Some err, out') \<Rightarrow> (Some err, out')
              | (None, out') \<Rightarrow> writeValues env out' base fs)
      else writeValues env out base fs)"

text \<open>The block \<open>// Save values.schema.json if it exists\<close>.\<close>

definition writeSchema :: "'l env \<Rightarrow> tar_writer \<Rightarrow> string \<Rightarrow> string option \<Rightarrow> error option \<times> tar_writer" where
  "writeSchema env out base sch =
     (case sch of
        None \<Rightarrow> (None, out)
      | Some s \<Rightarrow>
          if \<not> json_Valid env s
            then (Some (ErrorString (''invalid JSON in '' @ SchemafileName)), out)
          else writeToTar env out (Join [base, SchemafileName]) s)"

text \<open>The loops \<open>// Save templates\<close> and \<open>// Save files\<close>.\<close>

fun writeFiles :: "'l env \<Rightarrow> tar_writer \<Rightarrow> string \<Rightarrow> chart_file list \<Rightarrow> error option \<times> tar_writer" where
  "writeFiles env out base [] = (None, out)"
| "writeFiles env out base (f # fs) =
     (case writeToTar env out (Join [base, File_Name f]) (Data f) of
        (Some err, out') \<Rightarrow> (Some err, out')
      | (None, out') \<Rightarrow> writeFiles env out' base fs)"

text \<open>
  \<open>writeTarContents\<close>, with the loop \<open>// Save dependencies\<close> as \<open>writeTarDeps\<close>.
\<close>

fun writeTarContents :: "'l env \<Rightarrow> tar_writer \<Rightarrow> 'l chart \<Rightarrow> string \<Rightarrow> error option \<times> tar_writer"
  and writeTarDeps :: "'l env \<Rightarrow> tar_writer \<Rightarrow> 'l chart list \<Rightarrow> string \<Rightarrow> error option \<times> tar_writer"
where
  "writeTarContents env out (Chart md lk raw sch tmpl fls deps) prefix =
     (let c = Chart md lk raw sch tmpl fls deps in
      case validateName (Name c) of
        Some err \<Rightarrow> (Some err, out)
      | None \<Rightarrow>
         (let base = Join [prefix, Name c] in
          case yaml_Marshal_Metadata env md of
            Inl msg \<Rightarrow> (Some (CollaboratorError msg), out)
          | Inr cdata \<Rightarrow>
             (case writeToTar env out (Join [base, ChartfileName]) cdata of
                (Some err, out1) \<Rightarrow> (Some err, out1)
              | (None, out1) \<Rightarrow>
                 (case writeLock env out1 base lk of
                    (Some err, out2) \<Rightarrow> (Some err, out2)
                  | (None, out2) \<Rightarrow>
                     (case writeValues env out2 base raw of
                        (Some err, out3) \<Rightarrow> (Some err, out3)
                      | (None, out3) \<Rightarrow>
                         (case writeSchema env out3 base sch of
                            (Some err, out4) \<Rightarrow> (Some err, out4)
                          | (None, out4) \<Rightarrow>
                             (case writeFiles env out4 base tmpl of
                                (Some err, out5) \<Rightarrow> (Some err, out5)
                              | (None, out5) \<Rightarrow>
                                 (case writeFiles env out5 base fls of
                                    (Some err, out6) \<Rightarrow> (Some err, out6)
                                  | (None, out6) \<Rightarrow>
                                      writeTarDeps env out6 deps (Join [base, ChartsDir])))))))))"
| "writeTarDeps env out [] prefix = (None, out)"
| "writeTarDeps env out (dep # deps) prefix =
     (case writeTarContents env out dep prefix of
        (Some err, out') \<Rightarrow> (Some err, out')
      | (None, out') \<Rightarrow> writeTarDeps env out' deps prefix)"

subsection \<open>Package \<open>os\<close>: the file system\<close>

text \<open>
  A file holds plain bytes, or the gzip stream of a tar archive, kept as the gzip header
  fields \<open>Extra\<close> and \<open>Comment\<close> and the archive's entries. The file system is a finite
  table from cleaned paths to nodes. Paths are resolved lexically; the root and the working
  directory always exist.
\<close>

datatype content = Bytes string | Gzip string string "(header \<times> string) list"

datatype node = Directory | Regular content

type_synonym filesys = "(string \<times> node) list"

definition node_at :: "filesys \<Rightarrow> string \<Rightarrow> node option" where
  "node_at fs p = (if p = ''.'' \<or> p = ''/'' then Some Directory else map_of fs p)"

definition IsDir :: "node \<Rightarrow> bool" where
  "IsDir fi = (fi = Directory)"

text \<open>The proper ancestors of a cleaned path, outermost first.\<close>

definition ancestors :: "string \<Rightarrow> string list" where
  "ancestors p = map (\<lambda>i. take i p) (filter (\<lambda>i. IsPathSeparator (p ! i)) [1..<length p])"

text \<open>Path resolution: every ancestor must be a directory.\<close>

fun walk :: "filesys \<Rightarrow> string list \<Rightarrow> errno option" where
  "walk fs [] = None"
| "walk fs (a # as) =
     (case node_at fs a of
        None \<Rightarrow> Some ENOENT
      | Some Directory \<Rightarrow> walk fs as
      | Some (Regular x) \<Rightarrow> Some ENOTDIR)"

definition os_Stat :: "filesys \<Rightarrow> string \<Rightarrow> error + node" where
  "os_Stat fs name =
     (let p = Clean name
      in case walk fs (ancestors p) of
           Some e \<Rightarrow> Inl (PathError ''stat'' name e)
         | None \<Rightarrow>
             (case node_at fs p of
                None \<Rightarrow> Inl (PathError ''stat'' name ENOENT)
              | Some fi \<Rightarrow> Inr fi))"

text \<open>\<open>errors.Is(err, fs.ErrNotExist)\<close>\<close>

fun IsNotExist :: "error \<Rightarrow> bool" where
  "IsNotExist (PathError op' path ENOENT) = True"
| "IsNotExist (Wrapped msg e) = IsNotExist e"
| "IsNotExist e = False"

text \<open>\<open>os.MkdirAll\<close> makes the missing directories from the outermost inwards.\<close>

fun mkdirs :: "filesys \<Rightarrow> string list \<Rightarrow> error option \<times> filesys" where
  "mkdirs fs [] = (None, fs)"
| "mkdirs fs (q # qs) =
     (case node_at fs q of
        Some (Regular x) \<Rightarrow> (Some (PathError ''mkdir'' q ENOTDIR), fs)
      | Some Directory \<Rightarrow> mkdirs fs qs
      | None \<Rightarrow> mkdirs (AList.update q Directory fs) qs)"

definition os_MkdirAll :: "filesys \<Rightarrow> string \<Rightarrow> error option \<times> filesys" where
  "os_MkdirAll fs name = (let p = Clean name in mkdirs fs (ancestors p @ [p]))"

text \<open>
  \<open>os.WriteFile\<close> creates or truncates the file and writes the data; \<open>os.Create\<close> is the
  same with nothing written yet.
\<close>

definition os_WriteFile :: "filesys \<Rightarrow> string \<Rightarrow> string \<Rightarrow> error option \<times> filesys" where
  "os_WriteFile fs name data =
     (let p = Clean name
      in case walk fs (ancestors p) of
           Some e \<Rightarrow> (Some (PathError ''open'' name e), fs)
         | None \<Rightarrow>
             (case node_at fs p of
                Some Directory \<Rightarrow> (Some (PathError ''open'' name EISDIR), fs)
              | _ \<Rightarrow> (None, AList.update p (Regular (Bytes data)) fs)))"

definition os_Create :: "filesys \<Rightarrow> string \<Rightarrow> error option \<times> filesys" where
  "os_Create fs name = os_WriteFile fs name []"

text \<open>
  Closing the archive writer, the compressor and the file leaves in the file what went
  through them.
\<close>

definition file_Close :: "filesys \<Rightarrow> string \<Rightarrow> content \<Rightarrow> filesys" where
  "file_Close fs name c = AList.update (Clean name) (Regular c) fs"

text \<open>\<open>os.Remove\<close> removes a file, or a directory with nothing below it.\<close>

definition os_Remove :: "filesys \<Rightarrow> string \<Rightarrow> error option \<times> filesys" where
  "os_Remove fs name =
     (let p = Clean name
      in case walk fs (ancestors p) of
           Some e \<Rightarrow> (Some (PathError ''remove'' name e), fs)
         | None \<Rightarrow>
             (case node_at fs p of
                None \<Rightarrow> (Some (PathError ''remove'' name ENOENT), fs)
              | Some (Regular x) \<Rightarrow> (None, AList.delete p fs)
              | Some Directory \<Rightarrow>
                  if p = ''.'' \<or> p = ''/'' \<or> list_ex (\<lambda>k. p \<in> set (ancestors k)) (map fst fs)
                    then (Some (PathError ''remove'' name ENOTEMPTY), fs)
                  else (None, AList.delete p fs)))"

subsection \<open>The top-level archive writer\<close>

text \<open>
  \<open>Save\<close> from \<open>os.Create\<close> on. The deferred function closes the three layers and, when
  \<open>rollback\<close> is set, removes the file; the result of \<open>os.Remove\<close> is dropped.
\<close>

definition Save_write :: "'l env \<Rightarrow> 'l chart \<Rightarrow> string \<Rightarrow> filesys \<Rightarrow> string \<times> error option \<times> filesys" where
  "Save_write env c filename fs =
     (case os_Create fs filename of
        (Some err, fs1) \<Rightarrow> ([], Some err, fs1)
      | (None, fs1) \<Rightarrow>
          (case writeTarContents env tar_NewWriter c [] of
             (Some err, twriter) \<Rightarrow>
               (filename, Some err,
                snd (os_Remove
                       (file_Close fs1 filename (Gzip headerBytes ''Helm'' (tw_entries twriter)))
                       filename))
           | (None, twriter) \<Rightarrow>
               (filename, None,
                file_Close fs1 filename (Gzip headerBytes ''Helm'' (tw_entries twriter)))))"

definition Save :: "'l env \<Rightarrow> 'l chart \<Rightarrow> string \<Rightarrow> filesys \<Rightarrow> string \<times> error option \<times> filesys" where
  "Save env c outDir fs =
     (case Validate env c of
        Some msg \<Rightarrow> ([], Some (Wrapped ''chart validation: '' (CollaboratorError msg)), fs)
      | None \<Rightarrow>
          (case Metadata c of
             None \<Rightarrow> ([], Some NilDereference, fs)
           | Some md \<Rightarrow>
               (let filename = Join [outDir, Name c @ ''-'' @ Version md @ ''.tgz''];
                    dir = Dir filename
                in case os_Stat fs dir of
                     Inl err \<Rightarrow>
                       if IsNotExist err
                         then (case os_MkdirAll fs dir of
                                 (Some err2, fs1) \<Rightarrow> ([], Some err2, fs1)
                               | (None, fs1) \<Rightarrow> Save_write env c filename fs1)
                       else ([], Some (Wrapped (''stat '' @ dir @ '': '') err), fs)
                   | Inr stat \<Rightarrow>
                       if \<not> IsDir stat
                         then ([], Some (ErrorString (''is not a directory: '' @ dir)), fs)
                       else Save_write env c filename fs)))"

subsection \<open>The directory writer\<close>

text \<open>
  Modelled from the spec: \<open>SaveChartfile\<close>, declared outside the files at hand, writes the
  serialized metadata document at the given file name.
\<close>

definition SaveChartfile :: "'l env \<Rightarrow> filesys \<Rightarrow> string \<Rightarrow> metadata option \<Rightarrow> error option \<times> filesys" where
  "SaveChartfile env fs filename cf =
     (case yaml_Marshal_Metadata env cf of
        Inl msg \<Rightarrow> (Some (CollaboratorError msg), fs)
      | Inr out \<Rightarrow> os_WriteFile fs filename out)"

text \<open>
  Modelled from the spec: \<open>writeFile\<close>, declared outside the files at hand, writes the
  bytes at the file's relative path, making the directories above it.
\<close>

definition writeFile :: "filesys \<Rightarrow> string \<Rightarrow> string \<Rightarrow> error option \<times> filesys" where
  "writeFile fs name content =
     (case os_MkdirAll fs (Dir name) of
        (Some err, fs1) \<Rightarrow> (Some err, fs1)
      | (None, fs1) \<Rightarrow> os_WriteFile fs1 name content)"

text \<open>The loop \<open>// Save values.yaml\<close> of \<open>SaveDir\<close>.\<close>

fun saveValues :: "filesys \<Rightarrow> string \<Rightarrow> chart_file list \<Rightarrow> error option \<times> filesys" where
  "saveValues fs outdir [] = (None, fs)"
| "saveValues fs outdir (f # rest) =
     (if File_Name f = ValuesfileName
        then (case writeFile fs (Join [outdir, ValuesfileName]) (Data f) of
                (Some err, fs1) \<Rightarrow> (Some err, fs1)
              | (None, fs1) \<Rightarrow> saveValues fs1 outdir rest)
      else saveValues fs outdir rest)"

text \<open>The block \<open>// Save values.schema.json if it exists\<close> of \<open>SaveDir\<close>.\<close>

definition saveSchema :: "filesys \<Rightarrow> string \<Rightarrow> string option \<Rightarrow> error option \<times> filesys" where
  "saveSchema fs outdir sch =
     (case sch of
        None \<Rightarrow> (None, fs)
      | Some s \<Rightarrow> writeFile fs (Join [outdir, SchemafileName]) s)"

text \<open>
  The loops \<open>// Save templates and files\<close>: the inner one over a collection, the outer one
  over the two collections.
\<close>

fun saveFiles :: "filesys \<Rightarrow> string \<Rightarrow> chart_file list \<Rightarrow> error option \<times> filesys" where
  "saveFiles fs outdir [] = (None, fs)"
| "saveFiles fs outdir (f # rest) =
     (case writeFile fs (Join [outdir, File_Name f]) (Data f) of
        (Some err, fs1) \<Rightarrow> (Some err, fs1)
      | (None, fs1) \<Rightarrow> saveFiles fs1 outdir rest)"

fun saveCollections :: "filesys \<Rightarrow> string \<Rightarrow> chart_file list list \<Rightarrow> error option \<times> filesys" where
  "saveCollections fs outdir [] = (None, fs)"
| "saveCollections fs outdir (coll # rest) =
     (case saveFiles fs outdir coll of
        (Some err, fs1) \<Rightarrow> (Some err, fs1)
      | (None, fs1) \<Rightarrow> saveCollections fs1 outdir rest)"

text \<open>
  The loop \<open>// Save dependencies\<close> of \<open>SaveDir\<close>; \<open>full\<close> is the full path of the chart
  whose dependencies are saved.
\<close>

fun saveDependencies ::
  "'l env \<Rightarrow> string \<Rightarrow> filesys \<Rightarrow> string \<Rightarrow> 'l chart list \<Rightarrow> error option \<times> filesys" where
  "saveDependencies env full fs base [] = (None, fs)"
| "saveDependencies env full fs base (dep # deps) =
     (case Save env dep base fs of
        (p, Some err, fs1) \<Rightarrow>
          (Some (Wrapped (''saving '' @ ChartFullPath (Some full) dep @ '': '') err), fs1)
      | (p, None, fs1) \<Rightarrow> saveDependencies env full fs1 base deps)"

text \<open>
  \<open>SaveDir\<close>. The second argument is the full path of the parent of \<open>c\<close>, \<open>None\<close> when
  \<open>c\<close> is a root chart.
\<close>

definition SaveDir ::
  "'l env \<Rightarrow> string option \<Rightarrow> 'l chart \<Rightarrow> string \<Rightarrow> filesys \<Rightarrow> error option \<times> filesys" where
  "SaveDir env parent c dest fs =
     (case validateName (Name c) of
        Some err \<Rightarrow> (Some err, fs)
      | None \<Rightarrow>
         (let outdir = Join [dest, Name c] in
          if (case os_Stat fs outdir of Inr fi \<Rightarrow> \<not> IsDir fi | Inl err \<Rightarrow> False)
            then (Some (ErrorString (''file '' @ outdir @ '' already exists and is not a directory'')),
                  fs)
          else
           (case os_MkdirAll fs outdir of
              (Some err, fs1) \<Rightarrow> (Some err, fs1)
            | (None, fs1) \<Rightarrow>
               (case SaveChartfile env fs1 (Join [outdir, ChartfileName]) (Metadata c) of
                  (Some err, fs2) \<Rightarrow> (Some err, fs2)
                | (None, fs2) \<Rightarrow>
                   (case saveValues fs2 outdir (Raw c) of
                      (Some err, fs3) \<Rightarrow> (Some err, fs3)
                    | (None, fs3) \<Rightarrow>
                       (case saveSchema fs3 outdir (Schema c) of
                          (Some err, fs4) \<Rightarrow> (Some err, fs4)
                        | (None, fs4) \<Rightarrow>
                           (case saveCollections fs4 outdir [Templates c, Files c] of
                              (Some err, fs5) \<Rightarrow> (Some err, fs5)
                            | (None, fs5) \<Rightarrow>
                                saveDependencies env (ChartFullPath parent c) fs5
                                  (Join [outdir, ChartsDir]) (Dependencies c))))))))"

subsection \<open>Sample data\<close>

text \<open>
  A host for the examples: a validator that asks for a name that is a single path element
  and for a version, a serializer that prints name and version, a well-formedness test that
  knows the empty object only, a clock, and a stream that never fails. The lock document is
  its digest.
\<close>

definition sample_Validate :: "string chart \<Rightarrow> string option" where
  "sample_Validate c =
     (case Metadata c of
        None \<Rightarrow> Some ''chart.metadata is required''
      | Some md \<Rightarrow>
          if Metadata_Name md = [] then Some ''chart.metadata.name is required''
          else if Metadata_Name md \<noteq> Base (Metadata_Name md)
            then Some ''chart.metadata.name is invalid''
          else if Version md = [] then Some ''chart.metadata.version is required''
          else None)"

definition sample_Marshal :: "metadata option \<Rightarrow> string + string" where
  "sample_Marshal cf =
     (case cf of
        None \<Rightarrow> Inr ''null''
      | Some md \<Rightarrow> Inr (''name: '' @ Metadata_Name md @ '' version: '' @ Version md))"

definition sample_env :: "string env" where
  "sample_env =
     \<lparr>Separator = CHR ''/'',
      Validate = sample_Validate,
      yaml_Marshal_Metadata = sample_Marshal,
      yaml_Marshal_Lock = (\<lambda>l. Inr (''digest: '' @ l)),
      json_Valid = (\<lambda>s. s = ''{}''),
      Now = (\<lambda>k. 1000 + int k),
      stream_fault = (\<lambda>k. None)\<rparr>"

text \<open>A host whose separator is the backslash.\<close>

definition backslash_env :: "string env" where
  "backslash_env = sample_env\<lparr>Separator := CHR 0x5C\<rparr>"


text \<open>The same host at a later time.\<close>

definition later_env :: "string env" where
  "later_env = sample_env\<lparr>Now := (\<lambda>k. 5000 + int k)\<rparr>"

text \<open>The same host with a stream that fails at its second operation.\<close>

definition faulty_env :: "string env" where
  "faulty_env = sample_env\<lparr>stream_fault := (\<lambda>k. if k = 1 then Some EIO else None)\<rparr>"

definition dep_chart :: "string chart" where
  "dep_chart =
     Chart (Some \<lparr>Metadata_Name = ''dep'', Version = ''0.1.0''\<rparr>) None
       [\<lparr>File_Name = ''values.yaml'', Data = ''x: 1''\<rparr>] None
       [\<lparr>File_Name = ''templates/d.yaml'', Data = ''kind: D''\<rparr>] [] []"

definition sample_chart :: "string chart" where
  "sample_chart =
     Chart (Some \<lparr>Metadata_Name = ''mychart'', Version = ''1.0.0''\<rparr>) (Some ''abc'')
       [\<lparr>File_Name = ''values.yaml'', Data = ''a: b''\<rparr>] (Some ''{}'')
       [\<lparr>File_Name = ''templates/a.yaml'', Data = ''kind: A''\<rparr>]
       [\<lparr>File_Name = ''README.md'', Data = ''hello''\<rparr>]
       [dep_chart]"

definition bad_schema_chart :: "string chart" where
  "bad_schema_chart =
     Chart (Some \<lparr>Metadata_Name = ''mychart'', Version = ''1.0.0''\<rparr>) None
       [\<lparr>File_Name = ''values.yaml'', Data = ''a: b''\<rparr>] (Some ''{bad json'')
       [] [] []"

definition evil_chart :: "string chart" where
  "evil_chart =
     Chart (Some \<lparr>Metadata_Name = ''../evil'', Version = ''1.0.0''\<rparr>) None [] (Some ''{bad json'')
       [] [] []"

subsection \<open>The archive layout, in the words of the specification\<close>

text \<open>
  The text of a serialized document, and what an entry of the stream shows apart from its
  time stamp: stored path, mode, size and payload.
\<close>

definition yaml_text :: "string + string \<Rightarrow> string" where
  "yaml_text r = (case r of Inl msg \<Rightarrow> [] | Inr out \<Rightarrow> out)"

definition stored :: "header \<times> string \<Rightarrow> string \<times> int \<times> int \<times> string" where
  "stored e = (Header_Name (fst e), Mode (fst e), Size (fst e), snd e)"

definition entry_for :: "'l env \<Rightarrow> string \<times> string \<Rightarrow> string \<times> int \<times> int \<times> string" where
  "entry_for env pb = (ToSlash (Separator env) (fst pb), 420, int (length (snd pb)), snd pb)"

text \<open>
  With \<open>base = prefix/name\<close>: the metadata document, the lock document if present, the
  values file if present among the raw files, the schema if present, the templates, the
  static files, then each dependency laid out under \<open>base/charts\<close>.
\<close>

fun archive_layout :: "'l env \<Rightarrow> string \<Rightarrow> 'l chart \<Rightarrow> (string \<times> string) list" where
  "archive_layout env prefix (Chart md lk raw sch tmpl fls deps) =
     [(Join [Join [prefix, Name (Chart md lk raw sch tmpl fls deps)], ChartfileName],
       yaml_text (yaml_Marshal_Metadata env md))]
     @ (case lk of
          None \<Rightarrow> []
        | Some l \<Rightarrow>
            [(Join [Join [prefix, Name (Chart md lk raw sch tmpl fls deps)], ''Chart.lock''],
              yaml_text (yaml_Marshal_Lock env l))])
     @ map (\<lambda>f. (Join [Join [prefix, Name (Chart md lk raw sch tmpl fls deps)], ValuesfileName],
                  Data f))
           (filter (\<lambda>f. File_Name f = ValuesfileName) raw)
     @ (case sch of
          None \<Rightarrow> []
        | Some s \<Rightarrow>
            [(Join [Join [prefix, Name (Chart md lk raw sch tmpl fls deps)], SchemafileName], s)])
     @ map (\<lambda>f. (Join [Join [prefix, Name (Chart md lk raw sch tmpl fls deps)], File_Name f],
                  Data f)) tmpl
     @ map (\<lambda>f. (Join [Join [prefix, Name (Chart md lk raw sch tmpl fls deps)], File_Name f],
                  Data f)) fls
     @ concat (map (archive_layout env
                      (Join [Join [prefix, Name (Chart md lk raw sch tmpl fls deps)], ChartsDir]))
                   deps)"

subsection \<open>Notions used by the properties\<close>

text \<open>\<open>filepath.IsAbs\<close>: the path begins with the separator.\<close>

definition IsAbs :: "string \<Rightarrow> bool" where
  "IsAbs path = (path \<noteq> [] \<and> IsPathSeparator (hd path))"

text \<open>The error of the schema check of the archive builder.\<close>

definition MalformedSchema :: error where
  "MalformedSchema = ErrorString (''invalid JSON in '' @ SchemafileName)"

text \<open>Every schema in the chart tree is absent or well-formed.\<close>

fun schemas_well_formed :: "'l env \<Rightarrow> 'l chart \<Rightarrow> bool" where
  "schemas_well_formed env (Chart md lk raw sch tmpl fls deps) =
     ((case sch of None \<Rightarrow> True | Some s \<Rightarrow> json_Valid env s)
      \<and> list_all (schemas_well_formed env) deps)"

text \<open>The chart without its schema, templates, static files and dependencies.\<close>

definition up_to_values :: "'l chart \<Rightarrow> 'l chart" where
  "up_to_values c = Chart (Metadata c) (Lock c) (Raw c) None [] [] []"

text \<open>A chart without a schema whose dependency has a malformed one.\<close>

definition bad_dependency_chart :: "string chart" where
  "bad_dependency_chart =
     Chart (Some \<lparr>Metadata_Name = ''parent'', Version = ''2.0.0''\<rparr>) None [] None [] []
       [bad_schema_chart]"

text \<open>The chart without its dependencies.\<close>

definition without_dependencies :: "'l chart \<Rightarrow> 'l chart" where
  "without_dependencies c =
     Chart (Metadata c) (Lock c) (Raw c) (Schema c) (Templates c) (Files c) []"




text \<open>
  The stored paths of a stream, the stored paths of a layout, and the statement that a
  step extended the stream by an initial segment of the given paths.
\<close>

definition stored_paths :: "tar_writer \<Rightarrow> string list" where
  "stored_paths tw = map (\<lambda>e. Header_Name (fst e)) (tw_entries tw)"


definition appends_within :: "tar_writer \<Rightarrow> error option \<times> tar_writer \<Rightarrow> string list \<Rightarrow> bool" where
  "appends_within out res ps =
     list_ex (\<lambda>k. stored_paths (snd res) = stored_paths out @ take k ps) [0..<Suc (length ps)]"

text \<open>A chart named \<open>..\<close>.\<close>

definition dotdot_chart :: "string chart" where
  "dotdot_chart =
     Chart (Some \<lparr>Metadata_Name = ''..'', Version = ''1.0.0''\<rparr>) None
       [\<lparr>File_Name = ''values.yaml'', Data = ''a: b''\<rparr>] None
       [\<lparr>File_Name = ''templates/a.yaml'', Data = ''kind: A''\<rparr>] [] []"




text \<open>
  The chart with other schema bytes, and two file systems that are the same except for what
  a regular file at one path holds.
\<close>

definition with_schema :: "string \<Rightarrow> 'l chart \<Rightarrow> 'l chart" where
  "with_schema s c =
     Chart (Metadata c) (Lock c) (Raw c) (Some s) (Templates c) (Files c) (dependencies c)"




section \<open>Properties\<close>

subsection \<open>The name validator\<close>

lemma stripTrailing_no_trailing:
  "path \<noteq> [] \<Longrightarrow> \<not> IsPathSeparator (last path) \<Longrightarrow> stripTrailing path = path"
  by (subst stripTrailing.simps) simp

lemma stripTrailing_single: "stripTrailing [PathSeparator] = []"
  by (subst stripTrailing.simps, subst stripTrailing.simps) (simp add: IsPathSeparator_def)

lemma lastElemStart_no_separator:
  "\<forall>j<k. \<not> IsPathSeparator (path ! j) \<Longrightarrow> lastElemStart path k = 0"
  by (induction k) simp_all

lemma lastElemStart_tail:
  "lastElemStart path k \<le> j \<Longrightarrow> j < k \<Longrightarrow> \<not> IsPathSeparator (path ! j)"
proof (induction k)
  case 0
  then show ?case by simp
next
  case (Suc k)
  show ?case
  proof (cases "IsPathSeparator (path ! k)")
    case True
    with Suc.prems show ?thesis by simp
  next
    case False
    show ?thesis
    proof (cases "j = k")
      case True
      with False show ?thesis by simp
    next
      case neq: False
      with Suc.prems False have "lastElemStart path k \<le> j" "j < k" by simp_all
      then show ?thesis by (rule Suc.IH)
    qed
  qed
qed

lemma lastElemStart_le: "lastElemStart path k \<le> k"
  by (induction k) (auto simp: le_Suc_eq)

lemma last_element_no_separator:
  "x \<in> set (drop (lastElemStart p (length p)) p) \<Longrightarrow> \<not> IsPathSeparator x"
proof -
  assume "x \<in> set (drop (lastElemStart p (length p)) p)"
  then obtain i where i: "i < length p - lastElemStart p (length p)"
    and x: "x = drop (lastElemStart p (length p)) p ! i"
    by (auto simp: in_set_conv_nth)
  from i have "lastElemStart p (length p) + i < length p" by simp
  moreover have "lastElemStart p (length p) \<le> lastElemStart p (length p) + i" by simp
  ultimately have "\<not> IsPathSeparator (p ! (lastElemStart p (length p) + i))"
    using lastElemStart_tail by blast
  with x i show ?thesis by simp
qed

lemma Base_separator_free:
  assumes "n \<noteq> []" and "PathSeparator \<notin> set n"
  shows "Base n = n"
proof -
  from assms have "last n \<in> set n" by simp
  with assms have "last n \<noteq> PathSeparator" by metis
  then have "\<not> IsPathSeparator (last n)"
    by (simp add: IsPathSeparator_def)
  with assms have s: "stripTrailing n = n" by (simp add: stripTrailing_no_trailing)
  from assms have "\<forall>j<length n. n ! j \<noteq> PathSeparator"
    using nth_mem by metis
  then have "\<forall>j<length n. \<not> IsPathSeparator (n ! j)"
    by (simp add: IsPathSeparator_def)
  then have "lastElemStart n (length n) = 0" by (rule lastElemStart_no_separator)
  with s assms show ?thesis by (simp add: Base_def)
qed

lemma Base_single_separator: "Base [PathSeparator] = [PathSeparator]"
  by (simp add: Base_def stripTrailing_single)

lemma Base_fixed_point:
  assumes "Base n = n"
  shows "n \<noteq> [] \<and> (PathSeparator \<notin> set n \<or> n = [PathSeparator])"
proof -
  from assms have ne: "n \<noteq> []" by (auto simp: Base_def)
  let ?p1 = "stripTrailing n"
  let ?p2 = "drop (lastElemStart ?p1 (length ?p1)) ?p1"
  show ?thesis
  proof (cases "?p2 = []")
    case True
    with ne assms have "n = [PathSeparator]" by (simp add: Base_def Let_def)
    with ne show ?thesis by simp
  next
    case False
    with ne assms have "n = ?p2" by (simp add: Base_def Let_def)
    then have "set n = set ?p2" by simp
    moreover have "\<forall>x \<in> set ?p2. \<not> IsPathSeparator x"
      using last_element_no_separator by blast
    ultimately have "PathSeparator \<notin> set n" by (auto simp: IsPathSeparator_def)
    with ne show ?thesis by simp
  qed
qed

lemma Base_fixed_point_iff:
  "Base n = n \<longleftrightarrow> n \<noteq> [] \<and> (PathSeparator \<notin> set n \<or> n = [PathSeparator])"
  using Base_fixed_point Base_separator_free Base_single_separator by metis

text \<open>
  The validator in terms of \<open>Base\<close>: it succeeds exactly when \<open>Base\<close> returns the name
  unchanged, and every failure is \<open>ErrInvalidChartName\<close> carrying the offending name. For
  every name other than \<open>"."\<close>, \<open>".."\<close> and \<open>"/"\<close>, that is exactly when the name is
  non-empty and has no path separator.
\<close>

theorem validateName_characterised:
  "(validateName n = None \<longleftrightarrow> Base n = n)
   \<and> (validateName n \<noteq> None \<longrightarrow> validateName n = Some (ErrInvalidChartName n))
   \<and> (n \<noteq> ''.'' \<and> n \<noteq> ''..'' \<and> n \<noteq> ''/'' \<longrightarrow>
        (validateName n = None \<longleftrightarrow> n \<noteq> [] \<and> CHR ''/'' \<notin> set n))"
proof -
  have "n \<noteq> ''/'' \<Longrightarrow> (Base n = n \<longleftrightarrow> n \<noteq> [] \<and> CHR ''/'' \<notin> set n)"
    by (simp add: Base_fixed_point_iff PathSeparator_def)
  then show ?thesis by (auto simp: validateName_def Let_def)
qed

theorem validateName_characterised_witness:
  "validateName ''mychart'' = None \<and> validateName ''../evil'' = Some (ErrInvalidChartName ''../evil'')"
proof -
  have "validateName ''mychart'' = None"
    using validateName_characterised [of "''mychart''"] by simp
  moreover have "validateName ''../evil'' = Some (ErrInvalidChartName ''../evil'')"
    using validateName_characterised [of "''../evil''"] by auto
  ultimately show ?thesis by simp
qed

text \<open>
  C1, at the name \<open>".."\<close>. The validator accepts it, because \<open>Base\<close> returns it unchanged,
  although the name is \<open>".."\<close>. The chart directory of a chart of that name under \<open>dest\<close>
  is then \<open>dest/..\<close>, which is the working directory: \<open>SaveDir\<close> succeeds and writes the
  chart's files into the working directory, none of them under \<open>dest\<close>, and the archive
  builder stores the entries under \<open>../\<close>.
\<close>

theorem validateName_accepts_dotdot:
  "validateName ''..'' = None
   \<and> Name dotdot_chart = ''..''
   \<and> Join [''dest'', Name dotdot_chart] = ''.''
   \<and> SaveDir sample_env None dotdot_chart ''dest'' []
       = (None,
          [(''Chart.yaml'', Regular (Bytes ''name: .. version: 1.0.0'')),
           (''values.yaml'', Regular (Bytes ''a: b'')),
           (''templates'', Directory),
           (''templates/a.yaml'', Regular (Bytes ''kind: A''))])
   \<and> stored_paths (snd (writeTarContents sample_env tar_NewWriter dotdot_chart []))
       = [''../Chart.yaml'', ''../values.yaml'', ''../templates/a.yaml'']"
proof -
  have "Base ''..'' = ''..''"
    by (rule Base_separator_free) (simp_all add: PathSeparator_def)
  then have 1: "validateName ''..'' = None" by (simp add: validateName_def)
  have 2: "Name dotdot_chart = ''..''" by code_simp
  have 3: "Join [''dest'', Name dotdot_chart] = ''.''" by code_simp
  have 4: "SaveDir sample_env None dotdot_chart ''dest'' []
       = (None,
          [(''Chart.yaml'', Regular (Bytes ''name: .. version: 1.0.0'')),
           (''values.yaml'', Regular (Bytes ''a: b'')),
           (''templates'', Directory),
           (''templates/a.yaml'', Regular (Bytes ''kind: A''))])"
    by code_simp
  have 5: "stored_paths (snd (writeTarContents sample_env tar_NewWriter dotdot_chart []))
       = [''../Chart.yaml'', ''../values.yaml'', ''../templates/a.yaml'']"
    by code_simp
  from 1 2 3 4 5 show ?thesis by simp
qed

text \<open>So are \<open>"."\<close> and \<open>"/"\<close> accepted; the empty name is rejected.\<close>

lemma validateName_special_names:
  "validateName ''.'' = None \<and> validateName ''/'' = None
   \<and> validateName [] = Some (ErrInvalidChartName [])"
proof -
  have "Base ''.'' = ''.''"
    by (rule Base_separator_free) (simp_all add: PathSeparator_def)
  moreover have "Base ''/'' = ''/''"
    using Base_single_separator by (simp add: PathSeparator_def)
  moreover have "Base [] = ''.''" by (simp add: Base_def)
  ultimately show ?thesis by (simp add: validateName_def)
qed

subsection \<open>The archive entry writer\<close>

lemma append_payload_fresh: "append_payload (es @ [(h, [])]) b = es @ [(h, b)]"
  by (simp add: append_payload_def)

lemma ToSlash_replaces:
  "ToSlash sep path = map (\<lambda>c. if c = sep then CHR ''/'' else c) path"
proof (cases "sep = CHR ''/''")
  case True
  then have "map (\<lambda>c. if c = sep then CHR ''/'' else c) path = map (\<lambda>c. c) path"
    by (intro map_cong) auto
  with True show ?thesis by (simp add: ToSlash_def)
next
  case False
  then show ?thesis by (simp add: ToSlash_def)
qed

lemma ToSlash_no_separator: "sep \<noteq> CHR ''/'' \<Longrightarrow> sep \<notin> set (ToSlash sep path)"
  by (auto simp: ToSlash_replaces)

lemma writeToTar_succeeds_iff:
  "fst (writeToTar env out name body) = None \<longleftrightarrow>
     tw_remaining out = 0 \<and> stream_fault env (tw_ops out) = None
     \<and> stream_fault env (Suc (tw_ops out)) = None"
  by (auto simp: writeToTar_def WriteHeader_def Write_def Let_def split: option.splits)

lemma writeToTar_success:
  assumes "writeToTar env out name body = (None, out')"
  shows "tw_entries out' =
           tw_entries out @ [(\<lparr>Header_Name = ToSlash (Separator env) name, Mode = 420, Size = int (length body),
                                ModTime = Now env (tw_ops out)\<rparr>, body)]"
    and "tw_remaining out' = 0"
proof -
  from assms have ok: "fst (writeToTar env out name body) = None" by simp
  then have "tw_remaining out = 0" "stream_fault env (tw_ops out) = None"
    "stream_fault env (Suc (tw_ops out)) = None"
    by (simp_all add: writeToTar_succeeds_iff)
  with assms show "tw_entries out' =
           tw_entries out @ [(\<lparr>Header_Name = ToSlash (Separator env) name, Mode = 420, Size = int (length body),
                                ModTime = Now env (tw_ops out)\<rparr>, body)]"
    and "tw_remaining out' = 0"
    by (auto simp: writeToTar_def WriteHeader_def Write_def Let_def append_payload_fresh)
qed

lemma writeToTar_stored:
  assumes "writeToTar env out name body = (None, out')"
  shows "map stored (tw_entries out') = map stored (tw_entries out) @ [entry_for env (name, body)]"
  using writeToTar_success(1) [OF assms] by (simp add: stored_def entry_for_def)

text \<open>
  C8. An entry is written exactly when the writer has nothing pending and neither the
  header write nor the payload write fails; a failed header write leaves the stream
  without the entry. A written entry is appended at the end of the stream: its stored
  path is the input path with every separator of the host replaced by a forward slash, so
  that on a host whose separator is not the forward slash no separator of the host is left
  in it; its mode is \<open>0644\<close> (420, no execute bit, which are the bits of \<open>0111\<close> = 73), its
  size is the payload length and its payload the given bytes.
\<close>

theorem writeToTar_entry:
  "(fst (writeToTar env out name body) = None \<longleftrightarrow>
      fst (WriteHeader env out
             \<lparr>Header_Name = ToSlash (Separator env) name, Mode = 420, Size = int (length body),
              ModTime = Now env (tw_ops out)\<rparr>) = None
      \<and> fst (Write env
               (snd (WriteHeader env out
                       \<lparr>Header_Name = ToSlash (Separator env) name, Mode = 420,
                        Size = int (length body), ModTime = Now env (tw_ops out)\<rparr>)) body) = None)
   \<and> (fst (WriteHeader env out
             \<lparr>Header_Name = ToSlash (Separator env) name, Mode = 420, Size = int (length body),
              ModTime = Now env (tw_ops out)\<rparr>) \<noteq> None \<longrightarrow>
        tw_entries (snd (writeToTar env out name body)) = tw_entries out)
   \<and> (fst (writeToTar env out name body) = None \<longrightarrow>
        (\<exists>h. tw_entries (snd (writeToTar env out name body)) = tw_entries out @ [(h, body)]
           \<and> Header_Name h = map (\<lambda>c. if c = Separator env then CHR ''/'' else c) name
           \<and> (Separator env \<noteq> CHR ''/'' \<longrightarrow> Separator env \<notin> set (Header_Name h))
           \<and> Mode h = 420 \<and> and (Mode h) 73 = 0
           \<and> Size h = int (length body)))"
proof (intro conjI impI)
  show "fst (writeToTar env out name body) = None \<longleftrightarrow>
      fst (WriteHeader env out
             \<lparr>Header_Name = ToSlash (Separator env) name, Mode = 420, Size = int (length body),
              ModTime = Now env (tw_ops out)\<rparr>) = None
      \<and> fst (Write env
               (snd (WriteHeader env out
                       \<lparr>Header_Name = ToSlash (Separator env) name, Mode = 420,
                        Size = int (length body), ModTime = Now env (tw_ops out)\<rparr>)) body) = None"
    by (simp add: writeToTar_def Let_def split: prod.splits option.splits)
next
  assume "fst (WriteHeader env out
             \<lparr>Header_Name = ToSlash (Separator env) name, Mode = 420, Size = int (length body),
              ModTime = Now env (tw_ops out)\<rparr>) \<noteq> None"
  then show "tw_entries (snd (writeToTar env out name body)) = tw_entries out"
    by (auto simp: writeToTar_def WriteHeader_def Let_def split: option.splits if_splits)
next
  assume ok: "fst (writeToTar env out name body) = None"
  obtain out' where w: "writeToTar env out name body = (None, out')"
    using ok by (cases "writeToTar env out name body") auto
  let ?h = "\<lparr>Header_Name = ToSlash (Separator env) name, Mode = 420, Size = int (length body),
             ModTime = Now env (tw_ops out)\<rparr>"
  have m: "and (420::int) 73 = 0" by simp
  have n: "Header_Name ?h = map (\<lambda>c. if c = Separator env then CHR ''/'' else c) name"
    using ToSlash_replaces [of "Separator env" name] by simp
  have f: "Separator env \<noteq> CHR ''/'' \<longrightarrow> Separator env \<notin> set (Header_Name ?h)"
    using ToSlash_no_separator [of "Separator env" name] by simp
  have e: "tw_entries (snd (writeToTar env out name body)) = tw_entries out @ [(?h, body)]"
    using writeToTar_success(1) [OF w] w by simp
  show "\<exists>h. tw_entries (snd (writeToTar env out name body)) = tw_entries out @ [(h, body)]
           \<and> Header_Name h = map (\<lambda>c. if c = Separator env then CHR ''/'' else c) name
           \<and> (Separator env \<noteq> CHR ''/'' \<longrightarrow> Separator env \<notin> set (Header_Name h))
           \<and> Mode h = 420 \<and> and (Mode h) 73 = 0
           \<and> Size h = int (length body)"
    using e n f m by (intro exI [of _ ?h]) simp
qed

theorem writeToTar_entry_witness:
  "fst (writeToTar sample_env tar_NewWriter ''mychart/Chart.yaml'' ''name: mychart'') = None
   \<and> (\<exists>h. tw_entries (snd (writeToTar sample_env tar_NewWriter ''mychart/Chart.yaml'' ''name: mychart''))
            = [(h, ''name: mychart'')]
          \<and> Header_Name h = ''mychart/Chart.yaml'' \<and> Mode h = 420 \<and> Size h = 13)
   \<and> (\<exists>h. tw_entries (snd (writeToTar backslash_env tar_NewWriter
                               (''mychart'' @ [CHR 0x5C] @ ''templates'' @ [CHR 0x5C] @ ''a.yaml'')
                               ''kind: A''))
            = [(h, ''kind: A'')]
          \<and> Header_Name h = ''mychart/templates/a.yaml'' \<and> Mode h = 420 \<and> Size h = 7)
   \<and> fst (writeToTar faulty_env tar_NewWriter ''mychart/Chart.yaml'' ''name: mychart'') \<noteq> None"
proof -
  let ?wp = "''mychart'' @ [CHR 0x5C] @ ''templates'' @ [CHR 0x5C] @ ''a.yaml''"
  have ok: "fst (writeToTar sample_env tar_NewWriter ''mychart/Chart.yaml'' ''name: mychart'') = None"
    by (simp add: writeToTar_succeeds_iff sample_env_def tar_NewWriter_def)
  have okw: "fst (writeToTar backslash_env tar_NewWriter ?wp ''kind: A'') = None"
    by (simp add: writeToTar_succeeds_iff backslash_env_def sample_env_def tar_NewWriter_def)
  have bad: "fst (writeToTar faulty_env tar_NewWriter ''mychart/Chart.yaml'' ''name: mychart'') \<noteq> None"
    by (simp add: writeToTar_succeeds_iff faulty_env_def sample_env_def tar_NewWriter_def)
  from ok writeToTar_entry [of sample_env tar_NewWriter "''mychart/Chart.yaml''" "''name: mychart''"]
  have "\<exists>h. tw_entries (snd (writeToTar sample_env tar_NewWriter ''mychart/Chart.yaml'' ''name: mychart''))
            = tw_entries tar_NewWriter @ [(h, ''name: mychart'')]
          \<and> Header_Name h = map (\<lambda>c. if c = Separator sample_env then CHR ''/'' else c) ''mychart/Chart.yaml''
          \<and> Mode h = 420 \<and> and (Mode h) 73 = 0 \<and> Size h = int (length ''name: mychart'')"
    by blast
  then have 1: "\<exists>h. tw_entries (snd (writeToTar sample_env tar_NewWriter ''mychart/Chart.yaml'' ''name: mychart''))
            = [(h, ''name: mychart'')]
          \<and> Header_Name h = ''mychart/Chart.yaml'' \<and> Mode h = 420 \<and> Size h = 13"
    by (auto simp: sample_env_def tar_NewWriter_def)
  from okw writeToTar_entry [of backslash_env tar_NewWriter ?wp "''kind: A''"]
  have "\<exists>h. tw_entries (snd (writeToTar backslash_env tar_NewWriter ?wp ''kind: A''))
            = tw_entries tar_NewWriter @ [(h, ''kind: A'')]
          \<and> Header_Name h = map (\<lambda>c. if c = Separator backslash_env then CHR ''/'' else c) ?wp
          \<and> Mode h = 420 \<and> and (Mode h) 73 = 0 \<and> Size h = int (length ''kind: A'')"
    by blast
  then have 2: "\<exists>h. tw_entries (snd (writeToTar backslash_env tar_NewWriter ?wp ''kind: A''))
            = [(h, ''kind: A'')]
          \<and> Header_Name h = ''mychart/templates/a.yaml'' \<and> Mode h = 420 \<and> Size h = 7"
    by (auto simp: backslash_env_def sample_env_def tar_NewWriter_def)
  from ok 1 2 bad show ?thesis by blast
qed

subsection \<open>The archive builder\<close>

lemma writeLock_stored:
  assumes "writeLock env out base lk = (None, out')"
  shows "map stored (tw_entries out') =
           map stored (tw_entries out)
           @ map (entry_for env) (case lk of None \<Rightarrow> []
                            | Some l \<Rightarrow> [(Join [base, ''Chart.lock''], yaml_text (yaml_Marshal_Lock env l))])"
proof (cases lk)
  case None
  with assms show ?thesis by (simp add: writeLock_def)
next
  case (Some l)
  with assms obtain ldata where m: "yaml_Marshal_Lock env l = Inr ldata"
    and w: "writeToTar env out (Join [base, ''Chart.lock'']) ldata = (None, out')"
    by (auto simp: writeLock_def split: sum.splits)
  from writeToTar_stored [OF w] m Some show ?thesis by (simp add: yaml_text_def)
qed

lemma writeValues_stored:
  "writeValues env out base raw = (None, out') \<Longrightarrow>
     map stored (tw_entries out') =
       map stored (tw_entries out)
       @ map (entry_for env) (map (\<lambda>f. (Join [base, ValuesfileName], Data f))
                          (filter (\<lambda>f. File_Name f = ValuesfileName) raw))"
proof (induction raw arbitrary: out)
  case Nil
  then show ?case by simp
next
  case (Cons f raw)
  show ?case
  proof (cases "File_Name f = ValuesfileName")
    case True
    with Cons.prems obtain out1
      where w: "writeToTar env out (Join [base, ValuesfileName]) (Data f) = (None, out1)"
        and r: "writeValues env out1 base raw = (None, out')"
      by (auto split: prod.splits option.splits)
    from writeToTar_stored [OF w] Cons.IH [OF r] True show ?thesis by simp
  next
    case False
    with Cons.prems have "writeValues env out base raw = (None, out')" by simp
    from Cons.IH [OF this] False show ?thesis by simp
  qed
qed

lemma writeSchema_stored:
  assumes "writeSchema env out base sch = (None, out')"
  shows "map stored (tw_entries out') =
           map stored (tw_entries out)
           @ map (entry_for env) (case sch of None \<Rightarrow> [] | Some s \<Rightarrow> [(Join [base, SchemafileName], s)])"
proof (cases sch)
  case None
  with assms show ?thesis by (simp add: writeSchema_def)
next
  case (Some s)
  with assms have w: "writeToTar env out (Join [base, SchemafileName]) s = (None, out')"
    by (auto simp: writeSchema_def split: if_splits)
  from writeToTar_stored [OF w] Some show ?thesis by simp
qed

lemma writeFiles_stored:
  "writeFiles env out base fls = (None, out') \<Longrightarrow>
     map stored (tw_entries out') =
       map stored (tw_entries out)
       @ map (entry_for env) (map (\<lambda>f. (Join [base, File_Name f], Data f)) fls)"
proof (induction fls arbitrary: out)
  case Nil
  then show ?case by simp
next
  case (Cons f fls)
  from Cons.prems obtain out1
    where w: "writeToTar env out (Join [base, File_Name f]) (Data f) = (None, out1)"
      and r: "writeFiles env out1 base fls = (None, out')"
    by (auto split: prod.splits option.splits)
  from writeToTar_stored [OF w] Cons.IH [OF r] show ?case by simp
qed

lemma writeTarDeps_stored:
  assumes "\<And>d out out' prefix. d \<in> set deps \<Longrightarrow> writeTarContents env out d prefix = (None, out') \<Longrightarrow>
             map stored (tw_entries out') =
               map stored (tw_entries out) @ map (entry_for env) (archive_layout env prefix d)"
  shows "writeTarDeps env out deps prefix = (None, out') \<Longrightarrow>
           map stored (tw_entries out') =
             map stored (tw_entries out)
             @ map (entry_for env) (concat (map (archive_layout env prefix) deps))"
  using assms
proof (induction deps arbitrary: out)
  case Nil
  then show ?case by simp
next
  case (Cons d deps)
  from Cons.prems(1) obtain out1
    where w: "writeTarContents env out d prefix = (None, out1)"
      and r: "writeTarDeps env out1 deps prefix = (None, out')"
    by (auto split: prod.splits option.splits)
  have "map stored (tw_entries out1) =
          map stored (tw_entries out) @ map (entry_for env) (archive_layout env prefix d)"
    using Cons.prems(2) [OF _ w] by simp
  moreover have "map stored (tw_entries out') =
          map stored (tw_entries out1) @ map (entry_for env) (concat (map (archive_layout env prefix) deps))"
    using Cons.IH [OF r] Cons.prems(2) by simp
  ultimately show ?case by simp
qed

lemma writeTarContents_steps:
  assumes "writeTarContents env out (Chart md lk raw sch tmpl fls deps) prefix = (None, out')"
  obtains cdata out1 out2 out3 out4 out5 out6 where
    "validateName (Name (Chart md lk raw sch tmpl fls deps)) = None"
    "yaml_Marshal_Metadata env md = Inr cdata"
    "writeToTar env out
       (Join [Join [prefix, Name (Chart md lk raw sch tmpl fls deps)], ChartfileName]) cdata
     = (None, out1)"
    "writeLock env out1 (Join [prefix, Name (Chart md lk raw sch tmpl fls deps)]) lk = (None, out2)"
    "writeValues env out2 (Join [prefix, Name (Chart md lk raw sch tmpl fls deps)]) raw = (None, out3)"
    "writeSchema env out3 (Join [prefix, Name (Chart md lk raw sch tmpl fls deps)]) sch = (None, out4)"
    "writeFiles env out4 (Join [prefix, Name (Chart md lk raw sch tmpl fls deps)]) tmpl = (None, out5)"
    "writeFiles env out5 (Join [prefix, Name (Chart md lk raw sch tmpl fls deps)]) fls = (None, out6)"
    "writeTarDeps env out6 deps
       (Join [Join [prefix, Name (Chart md lk raw sch tmpl fls deps)], ChartsDir]) = (None, out')"
  using assms
  by (simp add: Let_def split: option.splits sum.splits prod.splits)

lemma writeTarContents_stored:
  "writeTarContents env out c prefix = (None, out') \<Longrightarrow>
     map stored (tw_entries out') =
       map stored (tw_entries out) @ map (entry_for env) (archive_layout env prefix c)"
proof (induction c arbitrary: out out' prefix)
  case (Chart md lk raw sch tmpl fls deps)
  let ?base = "Join [prefix, Name (Chart md lk raw sch tmpl fls deps)]"
  from Chart.prems obtain cdata out1 out2 out3 out4 out5 out6 where
    m: "yaml_Marshal_Metadata env md = Inr cdata" and
    s1: "writeToTar env out (Join [?base, ChartfileName]) cdata = (None, out1)" and
    s2: "writeLock env out1 ?base lk = (None, out2)" and
    s3: "writeValues env out2 ?base raw = (None, out3)" and
    s4: "writeSchema env out3 ?base sch = (None, out4)" and
    s5: "writeFiles env out4 ?base tmpl = (None, out5)" and
    s6: "writeFiles env out5 ?base fls = (None, out6)" and
    s7: "writeTarDeps env out6 deps (Join [?base, ChartsDir]) = (None, out')"
    by (rule writeTarContents_steps)
  have d: "map stored (tw_entries out') =
             map stored (tw_entries out6)
             @ map (entry_for env) (concat (map (archive_layout env (Join [?base, ChartsDir])) deps))"
    using s7 Chart.IH by (intro writeTarDeps_stored) auto
  show ?case
    using writeToTar_stored [OF s1] writeLock_stored [OF s2] writeValues_stored [OF s3]
      writeSchema_stored [OF s4] writeFiles_stored [OF s5] writeFiles_stored [OF s6] d m
    by (simp add: yaml_text_def)
qed



lemma appends_within_iff:
  "appends_within out res ps \<longleftrightarrow> (\<exists>k. stored_paths (snd res) = stored_paths out @ take k ps)"
proof
  assume "appends_within out res ps"
  then show "\<exists>k. stored_paths (snd res) = stored_paths out @ take k ps"
    unfolding appends_within_def list_ex_iff by blast
next
  assume "\<exists>k. stored_paths (snd res) = stored_paths out @ take k ps"
  then obtain k where k: "stored_paths (snd res) = stored_paths out @ take k ps" by blast
  then have "stored_paths (snd res) = stored_paths out @ take (min k (length ps)) ps"
    by (simp add: min_def)
  moreover have "min k (length ps) \<in> set [0..<Suc (length ps)]" by auto
  ultimately show "appends_within out res ps"
    unfolding appends_within_def list_ex_iff by blast
qed


lemma appends_within_all:
  "stored_paths out' = stored_paths out @ ps \<Longrightarrow> appends_within out (r, out') ps"
  unfolding appends_within_iff by (intro exI [of _ "length ps"]) simp














subsection \<open>The file system\<close>

lemma node_at_None: "node_at fs p = None \<Longrightarrow> map_of fs p = None"
  by (simp add: node_at_def split: if_splits)

lemma node_at_Regular: "node_at fs p = Some (Regular x) \<longleftrightarrow> p \<noteq> ''.'' \<and> p \<noteq> ''/'' \<and> map_of fs p = Some (Regular x)"
  by (simp add: node_at_def)

lemma node_at_update_other: "a \<noteq> k \<Longrightarrow> node_at (AList.update k v fs) a = node_at fs a"
  by (simp add: node_at_def AList.update_conv')

lemma ancestors_shorter: "a \<in> set (ancestors p) \<Longrightarrow> length a < length p"
  by (auto simp: ancestors_def)

lemma ancestors_not_self: "p \<notin> set (ancestors p)"
  using ancestors_shorter by blast

lemma walk_update_other: "k \<notin> set as \<Longrightarrow> walk (AList.update k v fs) as = walk fs as"
  by (induction as) (auto simp: node_at_update_other split: option.splits node.splits)

lemma mkdirs_files:
  "mkdirs fs qs = (r, fs') \<Longrightarrow>
     (map_of fs' p = Some (Regular x)) = (map_of fs p = Some (Regular x))"
proof (induction qs arbitrary: fs)
  case Nil
  then show ?case by simp
next
  case (Cons q qs)
  show ?case
  proof (cases "node_at fs q")
    case None
    with Cons.prems have "mkdirs (AList.update q Directory fs) qs = (r, fs')" by simp
    from Cons.IH [OF this] node_at_None [OF None] show ?thesis
      by (auto simp: AList.update_conv')
  next
    case (Some n)
    with Cons show ?thesis by (cases n) auto
  qed
qed

lemma os_MkdirAll_files:
  "os_MkdirAll fs name = (r, fs') \<Longrightarrow>
     (map_of fs' p = Some (Regular x)) = (map_of fs p = Some (Regular x))"
  unfolding os_MkdirAll_def Let_def by (rule mkdirs_files)

lemma os_WriteFile_failure: "os_WriteFile fs name data = (Some e, fs') \<Longrightarrow> fs' = fs"
  by (auto simp: os_WriteFile_def Let_def split: option.splits node.splits)

lemma os_WriteFile_success:
  assumes "os_WriteFile fs name data = (None, fs')"
  shows "fs' = AList.update (Clean name) (Regular (Bytes data)) fs"
    and "walk fs (ancestors (Clean name)) = None"
    and "node_at fs (Clean name) \<noteq> Some Directory"
  using assms by (auto simp: os_WriteFile_def Let_def split: option.splits node.splits)

lemma remove_written_file:
  assumes "walk fs (ancestors p) = None" and "node_at fs p \<noteq> Some Directory"
    and that: "Clean p' = p"
  shows "map_of (snd (os_Remove (AList.update p (Regular c) (AList.update p (Regular c0) fs)) p'))
         = (map_of fs)(p := None)"
proof -
  let ?fs2 = "AList.update p (Regular c) (AList.update p (Regular c0) fs)"
  from assms(2) have np: "p \<noteq> ''.''" "p \<noteq> ''/''" by (auto simp: node_at_def)
  have "walk ?fs2 (ancestors p) = None"
    using assms(1) ancestors_not_self by (simp add: walk_update_other)
  moreover from np have "node_at ?fs2 p = Some (Regular c)"
    by (simp add: node_at_def AList.update_conv')
  ultimately have "os_Remove ?fs2 p' = (None, AList.delete p ?fs2)"
    using that by (simp add: os_Remove_def)
  then show ?thesis by (simp add: AList.delete_conv' AList.update_conv')
qed

subsection \<open>Failure of the top-level archive writer\<close>

lemma Save_write_failure:
  assumes "Save_write env c filename fs = (p, Some e, fs')"
  shows "(map_of fs' q = Some (Regular x) \<longrightarrow> map_of fs q = Some (Regular x))
         \<and> (p \<noteq> [] \<longrightarrow> p = filename \<and> map_of fs' (Clean p) = None)"
proof (cases "os_Create fs filename")
  case (Pair r fs1)
  show ?thesis
  proof (cases r)
    case (Some err)
    with Pair have "fs1 = fs" by (auto simp: os_Create_def dest: os_WriteFile_failure)
    with Pair Some assms show ?thesis by (simp add: Save_write_def)
  next
    case None
    with Pair have cr: "os_WriteFile fs filename [] = (None, fs1)" by (simp add: os_Create_def)
    note w = os_WriteFile_success [OF cr]
    obtain r2 tw where t: "writeTarContents env tar_NewWriter c [] = (r2, tw)"
      by (cases "writeTarContents env tar_NewWriter c []")
    with assms Pair None obtain err where r2: "r2 = Some err"
      by (cases r2) (auto simp: Save_write_def)
    have fs': "fs' = snd (os_Remove (file_Close fs1 filename (Gzip headerBytes ''Helm'' (tw_entries tw))) filename)"
      and p: "p = filename"
      using assms Pair None t r2 by (auto simp: Save_write_def)
    have "map_of fs' = (map_of fs)(Clean filename := None)"
      unfolding fs' file_Close_def w(1)
      by (rule remove_written_file [OF w(2) w(3)]) simp
    with p show ?thesis by simp
  qed
qed

lemma Save_failure:
  assumes "Save env c outDir fs = (p, Some e, fs')"
  shows "(map_of fs' q = Some (Regular x) \<longrightarrow> map_of fs q = Some (Regular x))
         \<and> (p \<noteq> [] \<longrightarrow> map_of fs' (Clean p) = None)"
proof (cases "Validate env c")
  case (Some msg)
  with assms show ?thesis by (simp add: Save_def)
next
  case None
  show ?thesis
  proof (cases "Metadata c")
    case nomd: None
    with None assms show ?thesis by (simp add: Save_def)
  next
    case (Some md)
    let ?filename = "Join [outDir, Name c @ ''-'' @ Version md @ ''.tgz'']"
    let ?dir = "Dir ?filename"
    show ?thesis
    proof (cases "os_Stat fs ?dir")
      case (Inr stat)
      show ?thesis
      proof (cases "IsDir stat")
        case True
        with None Some Inr assms have "Save_write env c ?filename fs = (p, Some e, fs')"
          by (simp add: Save_def Let_def)
        from Save_write_failure [OF this] show ?thesis by blast
      next
        case False
        with None Some Inr assms show ?thesis by (simp add: Save_def Let_def)
      qed
    next
      case (Inl err)
      show ?thesis
      proof (cases "IsNotExist err")
        case False
        with None Some Inl assms show ?thesis by (simp add: Save_def Let_def)
      next
        case True
        obtain r fs1 where mk: "os_MkdirAll fs ?dir = (r, fs1)" by (cases "os_MkdirAll fs ?dir")
        note keep = os_MkdirAll_files [OF mk]
        show ?thesis
        proof (cases r)
          case (Some err2)
          with None \<open>Metadata c = Some md\<close> Inl True mk assms have "fs' = fs1" "p = []"
            by (simp_all add: Save_def Let_def)
          with keep show ?thesis by simp
        next
          case noerr: None
          with None Some Inl True mk assms have "Save_write env c ?filename fs1 = (p, Some e, fs')"
            by (simp add: Save_def Let_def)
          from Save_write_failure [OF this] keep show ?thesis by blast
        qed
      qed
    qed
  qed
qed

text \<open>
  C3. When \<open>Save\<close> fails, every file on disk afterwards was there before the call with the
  same content: the call leaves no file of its own, whatever the point of failure, so
  failing calls do not accumulate files. When the failure came after the archive file was
  created, the returned path names it and nothing is left at that path.
\<close>

theorem Save_failure_leaves_no_file:
  "fst (snd (Save env c outDir fs)) \<noteq> None \<longrightarrow>
     (\<forall>q x. map_of (snd (snd (Save env c outDir fs))) q = Some (Regular x)
              \<longrightarrow> map_of fs q = Some (Regular x))
     \<and> (fst (Save env c outDir fs) \<noteq> [] \<longrightarrow>
          map_of (snd (snd (Save env c outDir fs))) (Clean (fst (Save env c outDir fs))) = None)"
proof
  assume f: "fst (snd (Save env c outDir fs)) \<noteq> None"
  obtain p r fs' where s: "Save env c outDir fs = (p, r, fs')"
    by (cases "Save env c outDir fs") auto
  with f obtain e where "r = Some e" by auto
  with s have "Save env c outDir fs = (p, Some e, fs')" by simp
  from Save_failure [OF this] s
  show "(\<forall>q x. map_of (snd (snd (Save env c outDir fs))) q = Some (Regular x)
              \<longrightarrow> map_of fs q = Some (Regular x))
     \<and> (fst (Save env c outDir fs) \<noteq> [] \<longrightarrow>
          map_of (snd (snd (Save env c outDir fs))) (Clean (fst (Save env c outDir fs))) = None)"
    by simp
qed

theorem Save_failure_leaves_no_file_witness:
  "fst (snd (Save sample_env bad_schema_chart ''out'' [])) \<noteq> None
   \<and> (\<forall>q x. map_of (snd (snd (Save sample_env bad_schema_chart ''out'' []))) q \<noteq> Some (Regular x))
   \<and> map_of (snd (snd (Save sample_env bad_schema_chart ''out'' []))) ''out/mychart-1.0.0.tgz'' = None"
proof -
  have f: "fst (snd (Save sample_env bad_schema_chart ''out'' [])) \<noteq> None" by code_simp
  have p: "fst (Save sample_env bad_schema_chart ''out'' []) = ''out/mychart-1.0.0.tgz''" by code_simp
  have c: "Clean ''out/mychart-1.0.0.tgz'' = ''out/mychart-1.0.0.tgz''" by code_simp
  from f Save_failure_leaves_no_file [of sample_env bad_schema_chart "''out''" "[]"]
  show ?thesis by (simp add: p c)
qed

subsection \<open>What \<open>Save\<close> returns\<close>

text \<open>
  C4, at two inputs. With the relative output directory \<open>out\<close>, \<open>Save\<close> succeeds and
  returns the relative path \<open>out/mychart-1.0.0.tgz\<close>. With a chart whose schema is
  malformed it fails during writing and returns that path, not the empty one, with the
  error.
\<close>

theorem Save_returned_path:
  "Save sample_env sample_chart ''out'' [] =
     (''out/mychart-1.0.0.tgz'', None, snd (snd (Save sample_env sample_chart ''out'' [])))
   \<and> \<not> IsAbs (fst (Save sample_env sample_chart ''out'' []))
   \<and> fst (Save sample_env bad_schema_chart ''out'' []) = ''out/mychart-1.0.0.tgz''
   \<and> fst (snd (Save sample_env bad_schema_chart ''out'' [])) = Some MalformedSchema"
proof -
  have 1: "fst (Save sample_env sample_chart ''out'' []) = ''out/mychart-1.0.0.tgz''"
    by code_simp
  have 2: "fst (snd (Save sample_env sample_chart ''out'' [])) = None"
    by code_simp
  have 3: "\<not> IsAbs ''out/mychart-1.0.0.tgz''"
    by code_simp
  have 4: "fst (Save sample_env bad_schema_chart ''out'' []) = ''out/mychart-1.0.0.tgz''"
    by code_simp
  have 5: "fst (snd (Save sample_env bad_schema_chart ''out'' [])) = Some MalformedSchema"
    by code_simp
  from 1 2 have "Save sample_env sample_chart ''out'' [] =
     (''out/mychart-1.0.0.tgz'', None, snd (snd (Save sample_env sample_chart ''out'' [])))"
    by (metis prod.collapse)
  with 1 3 4 5 show ?thesis by simp
qed

subsection \<open>Names that encode a path\<close>


lemma Save_stages:
  "(\<exists>e fs1. Save env c outDir fs = ([], Some e, fs1))
   \<or> (\<exists>filename fs1. Save env c outDir fs = Save_write env c filename fs1)"
  by (auto simp: Save_def Let_def
           split: option.splits sum.splits prod.splits)















subsection \<open>The schema check\<close>

lemma MalformedSchema_neq [simp]:
  "MalformedSchema \<noteq> ErrWriteTooLong"
  "MalformedSchema \<noteq> ErrorString ''archive/tar: missed writing bytes''"
  "MalformedSchema \<noteq> PathError op' path e"
  "MalformedSchema \<noteq> CollaboratorError msg"
  "MalformedSchema \<noteq> ErrInvalidChartName n"
  "ErrWriteTooLong \<noteq> MalformedSchema"
  "ErrorString ''archive/tar: missed writing bytes'' \<noteq> MalformedSchema"
  "PathError op' path e \<noteq> MalformedSchema"
  "CollaboratorError msg \<noteq> MalformedSchema"
  "ErrInvalidChartName n \<noteq> MalformedSchema"
  by (simp_all add: MalformedSchema_def ErrWriteTooLong_def)

lemma writeToTar_not_MalformedSchema:
  "fst (writeToTar env out name body) \<noteq> Some MalformedSchema"
  by (auto simp: writeToTar_def WriteHeader_def Write_def Let_def
           split: option.splits if_splits)

lemma writeLock_not_MalformedSchema:
  "fst (writeLock env out base lk) \<noteq> Some MalformedSchema"
  using writeToTar_not_MalformedSchema
  by (auto simp: writeLock_def split: option.splits sum.splits)

lemma writeValues_not_MalformedSchema:
  "fst (writeValues env out base raw) \<noteq> Some MalformedSchema"
proof (induction raw arbitrary: out)
  case Nil
  then show ?case by simp
next
  case (Cons f raw)
  then show ?case
    using writeToTar_not_MalformedSchema [of env out "Join [base, ValuesfileName]" "Data f"]
    by (auto split: prod.splits option.splits)
qed

lemma writeFiles_not_MalformedSchema:
  "fst (writeFiles env out base fls) \<noteq> Some MalformedSchema"
proof (induction fls arbitrary: out)
  case Nil
  then show ?case by simp
next
  case (Cons f fls)
  then show ?case
    using writeToTar_not_MalformedSchema [of env out "Join [base, File_Name f]" "Data f"]
    by (auto split: prod.splits option.splits)
qed

lemma writeSchema_not_MalformedSchema:
  "(case sch of None \<Rightarrow> True | Some s \<Rightarrow> json_Valid env s) \<Longrightarrow>
     fst (writeSchema env out base sch) \<noteq> Some MalformedSchema"
  using writeToTar_not_MalformedSchema
  by (auto simp: writeSchema_def split: option.splits)

lemma writeSchema_malformed:
  "\<not> json_Valid env s \<Longrightarrow> writeSchema env out base (Some s) = (Some MalformedSchema, out)"
  by (simp add: writeSchema_def MalformedSchema_def)

lemma writeTarDeps_not_MalformedSchema:
  assumes "\<And>d out prefix. d \<in> set deps \<Longrightarrow> schemas_well_formed env d \<Longrightarrow>
             fst (writeTarContents env out d prefix) \<noteq> Some MalformedSchema"
    and "list_all (schemas_well_formed env) deps"
  shows "fst (writeTarDeps env out deps prefix) \<noteq> Some MalformedSchema"
  using assms
proof (induction deps arbitrary: out)
  case Nil
  then show ?case by simp
next
  case (Cons d deps)
  from Cons.prems have d: "fst (writeTarContents env out d prefix) \<noteq> Some MalformedSchema"
    by simp
  have r: "fst (writeTarDeps env out1 deps prefix) \<noteq> Some MalformedSchema" for out1
    using Cons.IH Cons.prems by simp
  show ?case
  proof (cases "writeTarContents env out d prefix")
    case (Pair e out1)
    with d r [of out1] show ?thesis by (cases e) auto
  qed
qed

lemma writeTarContents_not_MalformedSchema:
  "schemas_well_formed env c \<Longrightarrow>
     fst (writeTarContents env out c prefix) \<noteq> Some MalformedSchema"
proof (induction c arbitrary: out prefix)
  case (Chart md lk raw sch tmpl fls deps)
  let ?c = "Chart md lk raw sch tmpl fls deps"
  let ?base = "Join [prefix, Name ?c]"
  from Chart.prems have sch: "case sch of None \<Rightarrow> True | Some s \<Rightarrow> json_Valid env s"
    and deps: "list_all (schemas_well_formed env) deps"
    by simp_all
  have d: "fst (writeTarDeps env out6 deps p) \<noteq> Some MalformedSchema" for out6 p
    using Chart.IH deps by (intro writeTarDeps_not_MalformedSchema) auto
  show ?case
  proof (rule notI)
    assume a: "fst (writeTarContents env out ?c prefix) = Some MalformedSchema"
    then obtain out' where w: "writeTarContents env out ?c prefix = (Some MalformedSchema, out')"
      by (cases "writeTarContents env out ?c prefix") auto
    from w show False
      using writeToTar_not_MalformedSchema [of env out]
        writeLock_not_MalformedSchema [of env _ ?base lk]
        writeValues_not_MalformedSchema [of env _ ?base raw]
        writeSchema_not_MalformedSchema [OF sch, of _ ?base]
        writeFiles_not_MalformedSchema [of env _ ?base]
        d
      by (simp add: Let_def validateName_def
               split: option.splits sum.splits prod.splits if_splits) (metis fst_conv)+
  qed
qed

lemma writeTarContents_malformed_fails:
  assumes "Schema c = Some s" and "\<not> json_Valid env s"
  shows "fst (writeTarContents env out c prefix) \<noteq> None"
proof (cases c)
  case (Chart md lk raw sch tmpl fls deps)
  with assms have "sch = Some s" by simp
  with Chart assms(2) show ?thesis
    by (simp add: Let_def writeSchema_malformed
             split: option.splits sum.splits prod.splits)
qed

lemma writeTarContents_malformed_error:
  assumes "Schema c = Some s" and "\<not> json_Valid env s"
    and "writeTarContents env out (up_to_values c) prefix = (None, out1)"
  shows "writeTarContents env out c prefix = (Some MalformedSchema, out1)"
proof (cases c)
  case (Chart md lk raw sch tmpl fls deps)
  let ?c = "Chart md lk raw sch tmpl fls deps"
  let ?c' = "Chart md lk raw None [] [] []"
  let ?base = "Join [prefix, Name ?c]"
  from assms Chart have sch: "sch = Some s" by simp
  have nm: "Name ?c' = Name ?c" by (simp add: Name_def)
  from assms(3) Chart have "writeTarContents env out ?c' prefix = (None, out1)"
    by (simp add: up_to_values_def)
  then obtain cdata o1 o2 o3 o4 o5 o6 where
    v: "validateName (Name ?c') = None" and
    m: "yaml_Marshal_Metadata env md = Inr cdata" and
    s1: "writeToTar env out (Join [Join [prefix, Name ?c'], ChartfileName]) cdata = (None, o1)" and
    s2: "writeLock env o1 (Join [prefix, Name ?c']) lk = (None, o2)" and
    s3: "writeValues env o2 (Join [prefix, Name ?c']) raw = (None, o3)" and
    s4: "writeSchema env o3 (Join [prefix, Name ?c']) None = (None, o4)" and
    s5: "writeFiles env o4 (Join [prefix, Name ?c']) [] = (None, o5)" and
    s6: "writeFiles env o5 (Join [prefix, Name ?c']) [] = (None, o6)" and
    s7: "writeTarDeps env o6 [] (Join [Join [prefix, Name ?c'], ChartsDir]) = (None, out1)"
    by (rule writeTarContents_steps)
  from s4 s5 s6 s7 have o: "o3 = out1" by (simp add: writeSchema_def)
  have "writeTarContents env out ?c prefix = (Some MalformedSchema, out1)"
    using v m s1 s2 s3 o sch assms(2) unfolding nm
    by (simp add: Let_def writeSchema_malformed)
  with Chart show ?thesis by simp
qed

lemma Save_fails_when_build_fails:
  assumes "fst (writeTarContents env tar_NewWriter c []) \<noteq> None"
  shows "fst (snd (Save env c outDir fs)) \<noteq> None"
proof -
  have w: "fst (snd (Save_write env c filename fs1)) \<noteq> None" for filename fs1
    using assms by (auto simp: Save_write_def split: prod.splits option.splits)
  from Save_stages [of env c outDir fs] show ?thesis
  proof
    assume "\<exists>e fs1. Save env c outDir fs = ([], Some e, fs1)"
    then show ?thesis by auto
  next
    assume "\<exists>filename fs1. Save env c outDir fs = Save_write env c filename fs1"
    with w show ?thesis by auto
  qed
qed

text \<open>
  C6 (as amended). A chart whose schema is present and malformed makes the archive build
  fail; the error is \<open>MalformedSchema\<close> whenever the steps before the schema check succeed,
  that is, whenever the build of the chart cut after its values file succeeds. \<open>Save\<close> of
  such a chart fails and leaves no file of its own. Conversely, when every schema in the
  chart tree is absent or well-formed, the build does not fail with \<open>MalformedSchema\<close>.
\<close>

theorem malformed_schema_rejected:
  "(Schema c = Some s \<and> \<not> json_Valid env s \<longrightarrow>
      fst (writeTarContents env out c prefix) \<noteq> None
      \<and> (fst (writeTarContents env out (up_to_values c) prefix) = None \<longrightarrow>
            writeTarContents env out c prefix
            = (Some MalformedSchema, snd (writeTarContents env out (up_to_values c) prefix)))
      \<and> fst (snd (Save env c outDir fs)) \<noteq> None
      \<and> (\<forall>q x. map_of (snd (snd (Save env c outDir fs))) q = Some (Regular x)
                 \<longrightarrow> map_of fs q = Some (Regular x))
      \<and> (fst (Save env c outDir fs) \<noteq> [] \<longrightarrow>
            map_of (snd (snd (Save env c outDir fs))) (Clean (fst (Save env c outDir fs))) = None))
   \<and> (schemas_well_formed env c \<longrightarrow>
        fst (writeTarContents env out c prefix) \<noteq> Some MalformedSchema)"
proof (intro conjI impI)
  assume a: "Schema c = Some s \<and> \<not> json_Valid env s"
  then show "fst (writeTarContents env out c prefix) \<noteq> None"
    using writeTarContents_malformed_fails by blast
  from a have b: "fst (writeTarContents env tar_NewWriter c []) \<noteq> None"
    using writeTarContents_malformed_fails by blast
  then show f: "fst (snd (Save env c outDir fs)) \<noteq> None"
    by (rule Save_fails_when_build_fails)
  obtain p r fs' where s: "Save env c outDir fs = (p, r, fs')"
    by (cases "Save env c outDir fs") auto
  with f obtain e where e: "Save env c outDir fs = (p, Some e, fs')" by auto
  from Save_failure [OF e] s
  show "\<forall>q x. map_of (snd (snd (Save env c outDir fs))) q = Some (Regular x)
                 \<longrightarrow> map_of fs q = Some (Regular x)"
    by simp
  {
    assume "fst (Save env c outDir fs) \<noteq> []"
    with Save_failure [OF e] s
    show "map_of (snd (snd (Save env c outDir fs))) (Clean (fst (Save env c outDir fs))) = None"
      by simp
  }
  {
    assume "fst (writeTarContents env out (up_to_values c) prefix) = None"
    then have "writeTarContents env out (up_to_values c) prefix
                 = (None, snd (writeTarContents env out (up_to_values c) prefix))"
      by (metis prod.collapse)
    with a show "writeTarContents env out c prefix
            = (Some MalformedSchema, snd (writeTarContents env out (up_to_values c) prefix))"
      using writeTarContents_malformed_error by blast
  }
next
  assume "schemas_well_formed env c"
  then show "fst (writeTarContents env out c prefix) \<noteq> Some MalformedSchema"
    by (rule writeTarContents_not_MalformedSchema)
qed

theorem malformed_schema_rejected_witness:
  "fst (writeTarContents sample_env tar_NewWriter bad_schema_chart []) = Some MalformedSchema
   \<and> fst (snd (Save sample_env bad_schema_chart ''out'' [])) \<noteq> None
   \<and> map_of (snd (snd (Save sample_env bad_schema_chart ''out'' []))) ''out/mychart-1.0.0.tgz'' = None
   \<and> fst (writeTarContents sample_env tar_NewWriter sample_chart []) \<noteq> Some MalformedSchema"
proof -
  have a: "Schema bad_schema_chart = Some ''{bad json'' \<and> \<not> json_Valid sample_env ''{bad json''"
    by code_simp
  have b: "fst (writeTarContents sample_env tar_NewWriter (up_to_values bad_schema_chart) []) = None"
    by code_simp
  have p: "fst (Save sample_env bad_schema_chart ''out'' []) = ''out/mychart-1.0.0.tgz''"
    by code_simp
  have c: "Clean ''out/mychart-1.0.0.tgz'' = ''out/mychart-1.0.0.tgz''" by code_simp
  have d: "schemas_well_formed sample_env sample_chart" by code_simp
  from a b malformed_schema_rejected
    [of bad_schema_chart "''{bad json''" sample_env tar_NewWriter "[]" "''out''" "[]"]
  have "fst (writeTarContents sample_env tar_NewWriter bad_schema_chart []) = Some MalformedSchema
   \<and> fst (snd (Save sample_env bad_schema_chart ''out'' [])) \<noteq> None
   \<and> map_of (snd (snd (Save sample_env bad_schema_chart ''out'' []))) ''out/mychart-1.0.0.tgz'' = None"
    by (simp add: p c)
  moreover from d malformed_schema_rejected
    [of sample_chart "[]" sample_env tar_NewWriter "[]" "''out''" "[]"]
  have "fst (writeTarContents sample_env tar_NewWriter sample_chart []) \<noteq> Some MalformedSchema"
    by blast
  ultimately show ?thesis by blast
qed

text \<open>
  C6 as stated fails in both directions. The chart named \<open>../evil\<close> has a malformed schema
  and its build fails with \<open>ErrInvalidChartName\<close>, since the name is checked first. The
  chart \<open>parent\<close> has no schema and its build fails with \<open>MalformedSchema\<close>, raised for its
  dependency.
\<close>

theorem malformed_schema_other_outcomes:
  "Schema evil_chart = Some ''{bad json'' \<and> \<not> json_Valid sample_env ''{bad json''
   \<and> fst (writeTarContents sample_env tar_NewWriter evil_chart [])
       = Some (ErrInvalidChartName ''../evil'')
   \<and> ErrInvalidChartName ''../evil'' \<noteq> MalformedSchema
   \<and> Schema bad_dependency_chart = None
   \<and> fst (writeTarContents sample_env tar_NewWriter bad_dependency_chart []) = Some MalformedSchema"
proof -
  have 1: "Schema evil_chart = Some ''{bad json'' \<and> \<not> json_Valid sample_env ''{bad json''"
    by code_simp
  have 2: "fst (writeTarContents sample_env tar_NewWriter evil_chart [])
       = Some (ErrInvalidChartName ''../evil'')"
    by code_simp
  have 3: "Schema bad_dependency_chart = None" by code_simp
  have 4: "fst (writeTarContents sample_env tar_NewWriter bad_dependency_chart []) = Some MalformedSchema"
    by code_simp
  from 1 2 3 4 show ?thesis by simp
qed

subsection \<open>Two calls of \<open>Save\<close> on the same chart\<close>

lemma Save_write_success:
  assumes "Save_write env c filename fs = (p, None, fs')"
  shows "p = filename
         \<and> (\<exists>tw. writeTarContents env tar_NewWriter c [] = (None, tw)
                \<and> map_of fs' (Clean filename)
                    = Some (Regular (Gzip headerBytes ''Helm'' (tw_entries tw))))"
  using assms
  by (auto simp: Save_write_def file_Close_def AList.update_conv'
           split: prod.splits option.splits)

lemma Save_success:
  assumes "Save env c outDir fs = (p, None, fs')"
  shows "\<exists>md tw. Metadata c = Some md
           \<and> p = Join [outDir, Name c @ ''-'' @ Version md @ ''.tgz'']
           \<and> writeTarContents env tar_NewWriter c [] = (None, tw)
           \<and> map_of fs' (Clean p) = Some (Regular (Gzip headerBytes ''Helm'' (tw_entries tw)))"
proof -
  from assms obtain md where md: "Metadata c = Some md"
    by (cases "Metadata c") (auto simp: Save_def split: option.splits)
  let ?filename = "Join [outDir, Name c @ ''-'' @ Version md @ ''.tgz'']"
  from assms md obtain fs1 where "Save_write env c ?filename fs1 = (p, None, fs')"
    by (auto simp: Save_def Let_def
             split: option.splits sum.splits prod.splits if_splits)
  from Save_write_success [OF this] md show ?thesis by auto
qed

lemma archive_layout_collaborators:
  assumes "yaml_Marshal_Metadata env' = yaml_Marshal_Metadata env"
    and "yaml_Marshal_Lock env' = yaml_Marshal_Lock env"
  shows "archive_layout env' prefix c = archive_layout env prefix c"
proof (induction c arbitrary: prefix)
  case (Chart md lk raw sch tmpl fls deps)
  have h: "map (archive_layout env' p) deps = map (archive_layout env p) deps" for p
    using Chart.IH by (intro map_cong) auto
  show ?case by (simp only: archive_layout.simps assms h)
qed

lemma entry_for_host [simp]:
  "entry_for (env\<lparr>Now := now', stream_fault := fault'\<rparr>) = entry_for env"
  by (simp add: entry_for_def fun_eq_iff)

text \<open>
  C9. When two calls of \<open>Save\<close> on the same chart and output directory succeed, the second
  on the file system the first one left, at another time and with other stream failures,
  both return the same path, and the two archives hold the same entries in the same order
  apart from the time stamps: same stored paths, modes, sizes and payloads.
\<close>

theorem Save_twice_same_entries:
  assumes "Save env c outDir fs = (p1, None, fs1)"
    and "Save (env\<lparr>Now := now', stream_fault := fault'\<rparr>) c outDir fs1 = (p2, None, fs2)"
  shows "p2 = p1
         \<and> (\<exists>es1 es2.
               map_of fs1 (Clean p1) = Some (Regular (Gzip headerBytes ''Helm'' es1))
               \<and> map_of fs2 (Clean p2) = Some (Regular (Gzip headerBytes ''Helm'' es2))
               \<and> map stored es2 = map stored es1
               \<and> map stored es1 = map (entry_for env) (archive_layout env [] c))"
proof -
  let ?env' = "env\<lparr>Now := now', stream_fault := fault'\<rparr>"
  from Save_success [OF assms(1)] obtain md tw1 where
    md: "Metadata c = Some md" and
    p1: "p1 = Join [outDir, Name c @ ''-'' @ Version md @ ''.tgz'']" and
    w1: "writeTarContents env tar_NewWriter c [] = (None, tw1)" and
    f1: "map_of fs1 (Clean p1) = Some (Regular (Gzip headerBytes ''Helm'' (tw_entries tw1)))"
    by blast
  from Save_success [OF assms(2)] md obtain tw2 where
    p2: "p2 = Join [outDir, Name c @ ''-'' @ Version md @ ''.tgz'']" and
    w2: "writeTarContents ?env' tar_NewWriter c [] = (None, tw2)" and
    f2: "map_of fs2 (Clean p2) = Some (Regular (Gzip headerBytes ''Helm'' (tw_entries tw2)))"
    by auto
  have l: "archive_layout ?env' [] c = archive_layout env [] c"
    by (rule archive_layout_collaborators) simp_all
  have e1: "map stored (tw_entries tw1) = map (entry_for env) (archive_layout env [] c)"
    using writeTarContents_stored [OF w1] by (simp add: tar_NewWriter_def)
  have e2: "map stored (tw_entries tw2) = map (entry_for env) (archive_layout env [] c)"
    using writeTarContents_stored [OF w2] l by (simp add: tar_NewWriter_def)
  from p1 p2 f1 f2 e1 e2 show ?thesis by auto
qed

theorem Save_twice_same_entries_witness:
  "fst (Save later_env dep_chart ''out'' (snd (snd (Save sample_env dep_chart ''out'' []))))
     = fst (Save sample_env dep_chart ''out'' [])
   \<and> (\<exists>es1 es2.
         map_of (snd (snd (Save sample_env dep_chart ''out'' [])))
                (Clean (fst (Save sample_env dep_chart ''out'' [])))
           = Some (Regular (Gzip headerBytes ''Helm'' es1))
         \<and> map_of (snd (snd (Save later_env dep_chart ''out''
                                  (snd (snd (Save sample_env dep_chart ''out'' []))))))
                  (Clean (fst (Save later_env dep_chart ''out''
                                  (snd (snd (Save sample_env dep_chart ''out'' []))))))
           = Some (Regular (Gzip headerBytes ''Helm'' es2))
         \<and> map stored es2 = map stored es1
         \<and> map stored es1 =
             [(''dep/Chart.yaml'', 420, 24, ''name: dep version: 0.1.0''),
              (''dep/values.yaml'', 420, 4, ''x: 1''),
              (''dep/templates/d.yaml'', 420, 7, ''kind: D'')])"
proof -
  let ?r1 = "Save sample_env dep_chart ''out'' []"
  let ?r2 = "Save later_env dep_chart ''out'' (snd (snd ?r1))"
  have "fst (snd ?r1) = None" by code_simp
  then have 1: "?r1 = (fst ?r1, None, snd (snd ?r1))" by (metis prod.collapse)
  have "fst (snd ?r2) = None" by code_simp
  then have "?r2 = (fst ?r2, None, snd (snd ?r2))" by (metis prod.collapse)
  moreover have "later_env = sample_env\<lparr>Now := (\<lambda>k. 5000 + int k), stream_fault := (\<lambda>k. None)\<rparr>"
    by (simp add: later_env_def sample_env_def)
  ultimately have 2: "Save (sample_env\<lparr>Now := (\<lambda>k. 5000 + int k), stream_fault := (\<lambda>k. None)\<rparr>)
                        dep_chart ''out'' (snd (snd ?r1))
                      = (fst ?r2, None, snd (snd ?r2))"
    by simp
  have l: "map (entry_for sample_env) (archive_layout sample_env [] dep_chart) =
             [(''dep/Chart.yaml'', 420, 24, ''name: dep version: 0.1.0''),
              (''dep/values.yaml'', 420, 4, ''x: 1''),
              (''dep/templates/d.yaml'', 420, 7, ''kind: D'')]"
    by code_simp
  from Save_twice_same_entries [OF 1 2] show ?thesis unfolding l by metis
qed

subsection \<open>What the writers leave untouched\<close>










subsection \<open>The dependencies of a directory\<close>




lemma without_dependencies_simps [simp]:
  "Name (without_dependencies c) = Name c"
  "Metadata (without_dependencies c) = Metadata c"
  "Raw (without_dependencies c) = Raw c"
  "Schema (without_dependencies c) = Schema c"
  "Templates (without_dependencies c) = Templates c"
  "Files (without_dependencies c) = Files c"
  "Dependencies (without_dependencies c) = []"
  by (simp_all add: without_dependencies_def Name_def Dependencies_def)







subsection \<open>The schema in the directory form\<close>



































lemma with_schema_same: "Schema c = Some s \<Longrightarrow> with_schema s c = c"
  by (cases c) (simp add: with_schema_def)




end
